theory Spec2Isabelle
  imports
    Main
    "HOL-Library.Multiset"
    "HOL-Library.AList"
    "HOL-Library.Char_ord"
    "HOL-Library.List_Lexorder"
begin

section \<open>Go values used by the program\<close>

text \<open>
  A Go \<open>string\<close> is a sequence of bytes and is modelled as \<^typ>\<open>string\<close> (a list of 8-bit
  characters). A Go \<open>int\<close> is a 64-bit two's complement integer. It is modelled as
  \<^typ>\<open>int\<close>; the one arithmetic expression of the allocator whose result can leave the
  64-bit range is wrapped with \<open>go_int\<close>. A Go \<open>map[string]T\<close> is modelled as an
  association list with pairwise distinct keys: \<open>m[k] = v\<close> is \<open>AList.update k v m\<close>,
  \<open>delete(m, k)\<close> is \<open>AList.delete k m\<close>, a lookup is \<open>map_of m k\<close>, and \<open>len(m)\<close> is the
  length of the list. Go iterates over a map in an unspecified order; the list order is one
  of the possible orders.
\<close>

definition go_int :: "int \<Rightarrow> int" where
  "go_int x = (x + 2 ^ 63) mod 2 ^ 64 - 2 ^ 63"

type_synonym labels = "(string \<times> string) list"

definition lookup_str :: "labels \<Rightarrow> string \<Rightarrow> string" where
  \<comment> \<open>\<open>m[k]\<close>: the zero value \<open>""\<close> when the key is absent\<close>
  "lookup_str m k = (case map_of m k of None \<Rightarrow> [] | Some v \<Rightarrow> v)"

subsection \<open>strconv.Itoa and strconv.Atoi\<close>

definition digit_char :: "nat \<Rightarrow> char" where
  "digit_char d = char_of (48 + d)"

fun nat_digits :: "nat \<Rightarrow> string" where
  "nat_digits n =
     (if n < 10 then [digit_char n] else nat_digits (n div 10) @ [digit_char (n mod 10)])"

declare nat_digits.simps [simp del]

definition Itoa :: "int \<Rightarrow> string" where
  "Itoa i = (if i < 0 then CHR ''-'' # nat_digits (nat (- i)) else nat_digits (nat i))"

definition digit_val :: "char \<Rightarrow> nat option" where
  "digit_val c =
     (if 48 \<le> (of_char c :: nat) \<and> (of_char c :: nat) \<le> 57 then Some (of_char c - 48) else None)"

fun parse_digits :: "nat \<Rightarrow> string \<Rightarrow> nat option" where
  "parse_digits acc [] = Some acc"
| "parse_digits acc (c # cs) =
     (case digit_val c of None \<Rightarrow> None | Some d \<Rightarrow> parse_digits (acc * 10 + d) cs)"

definition Atoi :: "string \<Rightarrow> int option" where
  \<comment> \<open>an optional sign, then one or more decimal digits; \<open>None\<close> is a syntax or range error\<close>
  "Atoi s =
     (let (neg, ds) =
            (case s of
               [] \<Rightarrow> (False, [])
             | c # cs \<Rightarrow> if c = CHR ''-'' then (True, cs)
                        else if c = CHR ''+'' then (False, cs) else (False, s))
      in if ds = [] then None
         else case parse_digits 0 ds of
                None \<Rightarrow> None
              | Some n \<Rightarrow>
                  (let v = (if neg then - int n else int n)
                   in if v < - (2 ^ 63) \<or> v > 2 ^ 63 - 1 then None else Some v))"

definition HasPrefix :: "string \<Rightarrow> string \<Rightarrow> bool" where
  "HasPrefix s p = (take (length p) s = p)"

definition TrimPrefix :: "string \<Rightarrow> string \<Rightarrow> string" where
  "TrimPrefix s p = (if HasPrefix s p then drop (length p) s else s)"

text \<open>
  \<open>strings.ToLower\<close>. On a string of ASCII bytes the library lower-cases the letters
  \<open>A\<close> to \<open>Z\<close> byte by byte (and returns the string itself when it has none). On every
  other string it returns \<open>strings.Map(unicode.ToLower, s)\<close>, which depends on the Unicode
  case tables and is the parameter \<open>Map_ToLower\<close>.
\<close>

definition ToLower :: "(string \<Rightarrow> string) \<Rightarrow> string \<Rightarrow> string" where
  "ToLower Map_ToLower s =
     (if list_all (\<lambda>c. (of_char c :: nat) < 128) s
      then map (\<lambda>c. if 65 \<le> (of_char c :: nat) \<and> (of_char c :: nat) \<le> 90
                     then char_of ((of_char c :: nat) + 32) else c) s
      else Map_ToLower s)"

definition int64 :: "int \<Rightarrow> bool" where
  \<comment> \<open>the values of a Go \<open>int\<close>\<close>
  "int64 i = (- (2 ^ 63) \<le> i \<and> i < 2 ^ 63)"

subsection \<open>Values decoded by encoding/json\<close>

text \<open>
  \<open>json.Unmarshal\<close> into \<open>interface{}\<close> yields \<open>nil\<close>, a \<open>bool\<close>, a \<open>float64\<close>, a
  \<open>string\<close>, a \<open>[]interface{}\<close> or a \<open>map[string]interface{}\<close>. Numbers are not
  interpreted here.
\<close>

typedecl float64

datatype json =
    JNull
  | JBool bool
  | JNumber float64
  | JString string
  | JArray "json list"
  | JObject "(string \<times> json) list"

subsection \<open>Formatted messages\<close>

text \<open>
  A message built with \<open>fmt.Sprintf\<close> or \<open>fmt.Errorf\<close> is kept as its format string and
  its arguments.
\<close>

datatype fmt_arg = StrArg string | IntsArg "int list"

datatype message = Plain string | Sprintf string "fmt_arg list"

section \<open>Typed view of devcontainer.json (package devcontainer, config.go)\<close>

record BuildConfig =
  Dockerfile :: string
  Context :: string
  Args :: labels

record PortAttribute =
  Label :: string
  OnAutoForward :: string

text \<open>
  A field of type \<open>interface{}\<close> is a \<open>json option\<close>, \<open>None\<close> being \<open>nil\<close> (the key is
  absent or \<open>null\<close>); \<open>Build\<close> is a pointer, \<open>None\<close> being \<open>nil\<close>.
\<close>

record RawDevContainer =
  Name :: string
  Image' :: string
  Build :: "BuildConfig option"
  DockerComposeFile :: "json option"
  Service :: string
  RunServices :: "string list"
  WorkspaceFolder :: string
  ForwardPorts :: "json list"
  AppPort :: "json option"
  PortsAttributes :: "(string \<times> PortAttribute) list"
  ContainerEnv :: labels
  RunArgs :: "string list"
  ShutdownAction :: string

section \<open>Domain types (package model, types.go)\<close>

record ContainerInfo =
  ContainerID :: string
  ContainerName :: string
  ServiceName :: string
  Status :: string
  Labels :: labels

record PortSpec =
  ServiceName :: string
  ContainerPort :: int
  HostPort :: int
  Protocol :: string
  Label :: string

record PortAllocation =
  ServiceName :: string
  ContainerPort :: int
  HostPort :: int
  Protocol :: string
  Label :: string

text \<open>
  \<open>ConfigPattern\<close> and \<open>WorktreeStatus\<close> are string types with named constants. The time
  type of \<open>CreatedAt\<close> is a parameter \<open>'t\<close>.
\<close>

type_synonym ConfigPattern = string

definition PatternImage :: ConfigPattern where "PatternImage = ''image''"
definition PatternDockerfile :: ConfigPattern where "PatternDockerfile = ''dockerfile''"
definition PatternComposeSingle :: ConfigPattern where "PatternComposeSingle = ''compose-single''"
definition PatternComposeMulti :: ConfigPattern where "PatternComposeMulti = ''compose-multi''"

definition ConfigPattern_IsValid :: "ConfigPattern \<Rightarrow> bool" where
  "ConfigPattern_IsValid p =
     (p = PatternImage \<or> p = PatternDockerfile \<or> p = PatternComposeSingle \<or>
      p = PatternComposeMulti)"

definition IsCompose :: "ConfigPattern \<Rightarrow> bool" where
  "IsCompose p = (p = PatternComposeSingle \<or> p = PatternComposeMulti)"

definition ParseConfigPattern :: "(string \<Rightarrow> string) \<Rightarrow> string \<Rightarrow> ConfigPattern option" where
  "ParseConfigPattern Map_ToLower s =
     (let pattern = ToLower Map_ToLower s
      in if \<not> ConfigPattern_IsValid pattern then None else Some pattern)"

record 't WorktreeEnv =
  Name :: string
  Branch :: string
  WorktreePath :: string
  SourceRepoPath :: string
  Status :: string
  ConfigPattern :: ConfigPattern
  Containers :: "ContainerInfo list"
  PortAllocations :: "PortAllocation list"
  CreatedAt :: 't

subsection \<open>Environment names\<close>

text \<open>
  \<open>nameRegex\<close> is \<open>^[a-zA-Z0-9][a-zA-Z0-9-]*[a-zA-Z0-9]$|^[a-zA-Z0-9]$\<close>. Both alternatives
  are anchored at the start and at the end of the text, so \<open>MatchString\<close> is a match of the
  whole string. The pattern uses character classes, concatenation, alternation and the
  star of a class; \<open>regex\<close> is that fragment. A class is a list of inclusive ranges of
  code points; all of them are ASCII, so a class matches exactly one byte below 128 and no
  byte of a multi-byte or invalid UTF-8 sequence.
\<close>

datatype regex =
    Class "(nat \<times> nat) list"
  | ClassStar "(nat \<times> nat) list"
  | Concat regex regex
  | Alt regex regex

definition in_class :: "(nat \<times> nat) list \<Rightarrow> char \<Rightarrow> bool" where
  "in_class ranges c = list_ex (\<lambda>(lo, hi). lo \<le> of_char c \<and> (of_char c :: nat) \<le> hi) ranges"

fun matches :: "regex \<Rightarrow> string \<Rightarrow> bool" where
  "matches (Class ranges) s = (case s of [c] \<Rightarrow> in_class ranges c | _ \<Rightarrow> False)"
| "matches (ClassStar ranges) s = list_all (in_class ranges) s"
| "matches (Concat r1 r2) s =
     list_ex (\<lambda>n. matches r1 (take n s) \<and> matches r2 (drop n s)) [0..<Suc (length s)]"
| "matches (Alt r1 r2) s = (matches r1 s \<or> matches r2 s)"

definition alnum :: "(nat \<times> nat) list" where "alnum = [(97, 122), (65, 90), (48, 57)]"
definition alnum_hyphen :: "(nat \<times> nat) list" where
  "alnum_hyphen = [(97, 122), (65, 90), (48, 57), (45, 45)]"

definition nameRegex :: regex where
  "nameRegex = Alt (Concat (Class alnum) (Concat (ClassStar alnum_hyphen) (Class alnum)))
                   (Class alnum)"

datatype name_error = EmptyName | InvalidName string

definition ValidateName :: "string \<Rightarrow> name_error option" where
  "ValidateName name =
     (if name = [] then Some EmptyName
      else if \<not> matches nameRegex name then Some (InvalidName name)
      else None)"

section \<open>Port scanner (package port, scanner.go)\<close>

text \<open>
  The operating system is a parameter: \<open>h n p\<close> says whether a bind of port \<open>p\<close> on all
  interfaces for network \<open>n\<close> would succeed right now. \<open>net.Listen\<close> and
  \<open>net.ListenPacket\<close> reject an address whose port is outside \<open>0..65535\<close> before they
  reach the operating system.
\<close>

datatype network = Tcp | Udp

type_synonym host = "network \<Rightarrow> int \<Rightarrow> bool"

definition net_listen :: "host \<Rightarrow> network \<Rightarrow> int \<Rightarrow> bool" where
  "net_listen h n port = (0 \<le> port \<and> port \<le> 65535 \<and> h n port)"

definition IsPortAvailable :: "host \<Rightarrow> int \<Rightarrow> string \<Rightarrow> bool" where
  "IsPortAvailable h port protocol =
     (if protocol = ''tcp'' then net_listen h Tcp port
      else if protocol = ''udp'' then net_listen h Udp port
      else False)"

section \<open>Port allocator (package port, allocator.go)\<close>

definition portShiftMultiplier :: int where "portShiftMultiplier = 10000"
definition maxPort :: int where "maxPort = 65535"
definition dynamicRangeStart :: int where "dynamicRangeStart = 49152"
definition dynamicRangeEnd :: int where "dynamicRangeEnd = 65535"
definition maxWorktreeIndex :: int where "maxWorktreeIndex = 9"

datatype alloc_error =
    IndexOutOfRange int
  | NoAvailablePort string int int
  | PortOverflow int int alloc_error
  | PortInUse int int alloc_error
  | FailedToAllocate string int alloc_error

text \<open>
  The allocator object holds the scanner and the slice \<open>existingAllocations\<close>; the slice is
  passed explicitly as \<open>existing\<close>.
\<close>

definition isPortAvailableForAllocation ::
  "host \<Rightarrow> PortAllocation list \<Rightarrow> int \<Rightarrow> string \<Rightarrow> bool" where
  "isPortAvailableForAllocation h existing port protocol =
     (if list_ex (\<lambda>alloc. HostPort alloc = port \<and> Protocol alloc = protocol) existing
      then False
      else IsPortAvailable h port protocol)"

text \<open>
  The loop \<open>for port := startPort; port <= endPort; port++\<close> that returns the first port
  accepted by \<open>isPortAvailableForAllocation\<close>. The allocator has two loops of this shape:
  the body of \<open>findAvailablePortExcludingExisting\<close> and the block scan inside
  \<open>AllocatePort\<close>.
\<close>

function firstAvailable ::
  "host \<Rightarrow> PortAllocation list \<Rightarrow> string \<Rightarrow> int \<Rightarrow> int \<Rightarrow> int option" where
  "firstAvailable h existing protocol port endPort =
     (if port \<le> endPort then
        (if isPortAvailableForAllocation h existing port protocol then Some port
         else firstAvailable h existing protocol (port + 1) endPort)
      else None)"
  by pat_completeness auto
termination
  by (relation "measure (\<lambda>(h, existing, protocol, port, endPort). nat (endPort + 1 - port))") auto

declare firstAvailable.simps [simp del]

definition findAvailablePortExcludingExisting ::
  "host \<Rightarrow> PortAllocation list \<Rightarrow> int \<Rightarrow> int \<Rightarrow> string \<Rightarrow> alloc_error + int" where
  "findAvailablePortExcludingExisting h existing startPort endPort protocol =
     (case firstAvailable h existing protocol startPort endPort of
        Some port \<Rightarrow> Inr port
      | None \<Rightarrow> Inl (NoAvailablePort protocol startPort endPort))"

definition shiftedPort :: "int \<Rightarrow> int \<Rightarrow> int" where
  \<comment> \<open>the candidate: \<open>originalPort\<close> at index 0, else \<open>originalPort + worktreeIndex * 10000\<close>\<close>
  "shiftedPort originalPort worktreeIndex =
     (if worktreeIndex = 0 then originalPort
      else go_int (originalPort + go_int (worktreeIndex * portShiftMultiplier)))"

definition blockEnd :: "int \<Rightarrow> int" where
  \<comment> \<open>\<open>blockEnd := hostPort + portShiftMultiplier - 1\<close>, capped at \<open>maxPort\<close>\<close>
  "blockEnd hostPort =
     (if hostPort + portShiftMultiplier - 1 > maxPort then maxPort
      else hostPort + portShiftMultiplier - 1)"

definition blockScan :: "host \<Rightarrow> PortAllocation list \<Rightarrow> string \<Rightarrow> int \<Rightarrow> int option" where
  \<comment> \<open>\<open>for candidate := blockStart + 1; candidate <= blockEnd; candidate++\<close> with
      \<open>blockStart := hostPort\<close>\<close>
  "blockScan h existing protocol hostPort =
     firstAvailable h existing protocol (hostPort + 1) (blockEnd hostPort)"

definition AllocatePort ::
  "host \<Rightarrow> PortAllocation list \<Rightarrow> int \<Rightarrow> int \<Rightarrow> string \<Rightarrow> string \<Rightarrow> alloc_error + PortAllocation" where
  "AllocatePort h existing originalPort worktreeIndex serviceName protocol0 =
     (if worktreeIndex < 0 \<or> worktreeIndex > maxWorktreeIndex
      then Inl (IndexOutOfRange worktreeIndex)
      else
        let protocol = (if protocol0 = [] then ''tcp'' else protocol0);
            hostPort = shiftedPort originalPort worktreeIndex;
            result = (\<lambda>p. \<lparr>ServiceName = serviceName, ContainerPort = originalPort,
                           HostPort = p, Protocol = protocol, Label = []\<rparr>)
        in if hostPort > maxPort then
             (case findAvailablePortExcludingExisting h existing
                     dynamicRangeStart dynamicRangeEnd protocol of
                Inl err \<Rightarrow> Inl (PortOverflow originalPort worktreeIndex err)
              | Inr fallbackPort \<Rightarrow> Inr (result fallbackPort))
           else if \<not> isPortAvailableForAllocation h existing hostPort protocol then
             (case blockScan h existing protocol hostPort of
                Some candidate \<Rightarrow> Inr (result candidate)
              | None \<Rightarrow>
                  (case findAvailablePortExcludingExisting h existing
                          dynamicRangeStart dynamicRangeEnd protocol of
                     Inl err \<Rightarrow> Inl (PortInUse hostPort originalPort err)
                   | Inr fallbackPort \<Rightarrow> Inr (result fallbackPort)))
           else Inr (result hostPort))"

text \<open>
  The loop of \<open>AllocatePorts\<close>: its state is the allocator's \<open>existingAllocations\<close> and
  the result slice \<open>allocations\<close>; both grow by the new allocation after each port.
\<close>

fun AllocatePorts_loop ::
  "host \<Rightarrow> int \<Rightarrow> PortSpec list \<Rightarrow> PortAllocation list \<Rightarrow> PortAllocation list
     \<Rightarrow> alloc_error + (PortAllocation list \<times> PortAllocation list)" where
  "AllocatePorts_loop h worktreeIndex [] existing allocations = Inr (existing, allocations)"
| "AllocatePorts_loop h worktreeIndex (ps # rest) existing allocations =
     (let proto = (if PortSpec.Protocol ps = [] then ''tcp'' else PortSpec.Protocol ps)
      in case AllocatePort h existing (PortSpec.ContainerPort ps) worktreeIndex
                (PortSpec.ServiceName ps) proto of
           Inl err \<Rightarrow>
             Inl (FailedToAllocate (PortSpec.ServiceName ps) (PortSpec.ContainerPort ps) err)
         | Inr alloc0 \<Rightarrow>
             (let alloc = alloc0\<lparr>Label := PortSpec.Label ps\<rparr>
              in AllocatePorts_loop h worktreeIndex rest
                   (existing @ [alloc]) (allocations @ [alloc])))"

definition AllocatePorts ::
  "host \<Rightarrow> PortAllocation list \<Rightarrow> PortSpec list \<Rightarrow> int \<Rightarrow> alloc_error + PortAllocation list" where
  "AllocatePorts h existing ports worktreeIndex =
     (case AllocatePorts_loop h worktreeIndex ports existing [] of
        Inl err \<Rightarrow> Inl err
      | Inr (existing', allocations) \<Rightarrow> Inr allocations)"

definition port_key :: "PortAllocation \<Rightarrow> int \<times> string" where
  \<comment> \<open>the pair under which host ports must be unique\<close>
  "port_key a = (HostPort a, Protocol a)"

definition all_free :: host where
  \<comment> \<open>a host on which every bind succeeds\<close>
  "all_free = (\<lambda>n p. True)"


section \<open>Label store (package docker, label.go)\<close>

text \<open>
  The library functions that the label store depends on are a parameter:
  \<open>Format_RFC3339 t\<close> is \<open>t.UTC().Format(time.RFC3339)\<close>, \<open>Parse_RFC3339 s\<close> is
  \<open>time.Parse(time.RFC3339, s)\<close> (\<open>None\<close> on an error), \<open>Truncate_Second t\<close> is the
  instant \<open>t\<close> without its fraction of a second, and \<open>Map_ToLower s\<close> is
  \<open>strings.Map(unicode.ToLower, s)\<close>.
\<close>

record 't library =
  Format_RFC3339 :: "'t \<Rightarrow> string"
  Parse_RFC3339 :: "string \<Rightarrow> 't option"
  Truncate_Second :: "'t \<Rightarrow> 't"
  Map_ToLower :: "string \<Rightarrow> string"

definition LabelPrefix :: string where "LabelPrefix = ''worktree.''"
definition LabelManagedBy :: string where "LabelManagedBy = LabelPrefix @ ''managed-by''"
definition LabelName :: string where "LabelName = LabelPrefix @ ''name''"
definition LabelBranch :: string where "LabelBranch = LabelPrefix @ ''branch''"
definition LabelWorktreePath :: string where "LabelWorktreePath = LabelPrefix @ ''worktree-path''"
definition LabelSourceRepo :: string where "LabelSourceRepo = LabelPrefix @ ''source-repo''"
definition LabelOriginalPortPrefix :: string where
  "LabelOriginalPortPrefix = LabelPrefix @ ''original-port.''"
definition LabelConfigPattern :: string where "LabelConfigPattern = LabelPrefix @ ''config-pattern''"
definition LabelCreatedAt :: string where "LabelCreatedAt = LabelPrefix @ ''created-at''"
definition ManagedByValue :: string where "ManagedByValue = ''worktree-container''"

datatype label_error =
    MissingLabels "string list"
  | UnexpectedManagedBy string
  | InvalidConfigPattern string
  | InvalidCreatedAt string
  | InvalidContainerPort string
  | InvalidHostPort string string
  | PortLabelsFailed label_error

definition BuildPortLabel :: "int \<Rightarrow> string" where
  "BuildPortLabel containerPort = LabelOriginalPortPrefix @ Itoa containerPort"

definition BuildLabels :: "'t library \<Rightarrow> 't WorktreeEnv \<Rightarrow> labels" where
  "BuildLabels T env =
     fold (\<lambda>pa labels. AList.update (BuildPortLabel (ContainerPort pa)) (Itoa (HostPort pa)) labels)
       (PortAllocations env)
       [(LabelManagedBy, ManagedByValue),
        (LabelName, Name env),
        (LabelBranch, Branch env),
        (LabelWorktreePath, WorktreePath env),
        (LabelSourceRepo, SourceRepoPath env),
        (LabelConfigPattern, ConfigPattern env),
        (LabelCreatedAt, Format_RFC3339 T (CreatedAt env))]"

fun ParsePortLabels_loop ::
  "labels \<Rightarrow> PortAllocation list \<Rightarrow> label_error + PortAllocation list" where
  "ParsePortLabels_loop [] allocations = Inr allocations"
| "ParsePortLabels_loop ((key, value) # rest) allocations =
     (if \<not> HasPrefix key LabelOriginalPortPrefix then ParsePortLabels_loop rest allocations
      else case Atoi (TrimPrefix key LabelOriginalPortPrefix) of
             None \<Rightarrow> Inl (InvalidContainerPort key)
           | Some containerPort \<Rightarrow>
               (case Atoi value of
                  None \<Rightarrow> Inl (InvalidHostPort key value)
                | Some hostPort \<Rightarrow>
                    ParsePortLabels_loop rest
                      (allocations @
                         [\<lparr>ServiceName = [], ContainerPort = containerPort,
                           HostPort = hostPort, Protocol = ''tcp'', Label = []\<rparr>])))"

definition ParsePortLabels :: "labels \<Rightarrow> label_error + PortAllocation list" where
  "ParsePortLabels labels = ParsePortLabels_loop labels []"

definition ParseLabels :: "'t library \<Rightarrow> labels \<Rightarrow> label_error + 't WorktreeEnv" where
  "ParseLabels T labels =
     (let requiredKeys = [LabelManagedBy, LabelName, LabelBranch, LabelWorktreePath,
                          LabelSourceRepo, LabelConfigPattern, LabelCreatedAt];
          missing = filter (\<lambda>key. map_of labels key = None) requiredKeys
      in if length missing > 0 then Inl (MissingLabels missing)
         else if lookup_str labels LabelManagedBy \<noteq> ManagedByValue
         then Inl (UnexpectedManagedBy (lookup_str labels LabelManagedBy))
         else case ParseConfigPattern (Map_ToLower T) (lookup_str labels LabelConfigPattern) of
                None \<Rightarrow> Inl (InvalidConfigPattern (lookup_str labels LabelConfigPattern))
              | Some pattern \<Rightarrow>
                  (case Parse_RFC3339 T (lookup_str labels LabelCreatedAt) of
                     None \<Rightarrow> Inl (InvalidCreatedAt (lookup_str labels LabelCreatedAt))
                   | Some createdAt \<Rightarrow>
                       (case ParsePortLabels labels of
                          Inl err \<Rightarrow> Inl (PortLabelsFailed err)
                        | Inr ports \<Rightarrow>
                            Inr \<lparr>Name = lookup_str labels LabelName,
                                 Branch = lookup_str labels LabelBranch,
                                 WorktreePath = lookup_str labels LabelWorktreePath,
                                 SourceRepoPath = lookup_str labels LabelSourceRepo,
                                 Status = [],
                                 ConfigPattern = pattern,
                                 Containers = [],
                                 PortAllocations = ports,
                                 CreatedAt = createdAt\<rparr>)))"

section \<open>Exit codes and errors (package model, types.go)\<close>

datatype ExitCode =
    ExitSuccess | ExitGeneralError | ExitDevContainerNotFound | ExitDockerNotRunning
  | ExitPortAllocationFailed | ExitGitError | ExitEnvNotFound | ExitUserCancelled

text \<open>
  The values of Go's \<open>error\<close> interface that the modelled code produces. \<open>CLIError\<close> is the
  struct of that name with its fields \<open>Code\<close>, \<open>Message\<close> and \<open>Err\<close>.
\<close>

datatype go_error =
    NameError name_error
  | AllocError alloc_error
  | MaxEnvironmentsReached int
  | ExternalError string
  | CLIError ExitCode message "go_error option"

definition NewCLIError :: "ExitCode \<Rightarrow> message \<Rightarrow> go_error" where
  "NewCLIError code msg = CLIError code msg None"

definition WrapCLIError :: "ExitCode \<Rightarrow> message \<Rightarrow> go_error \<Rightarrow> go_error" where
  "WrapCLIError code msg err = CLIError code msg (Some err)"

section \<open>Pattern detection (package devcontainer, config.go)\<close>

definition DetectPattern :: "RawDevContainer \<Rightarrow> int \<Rightarrow> ConfigPattern" where
  "DetectPattern raw composeServiceCount =
     (if DockerComposeFile raw \<noteq> None then
        (if composeServiceCount \<ge> 2 then PatternComposeMulti else PatternComposeSingle)
      else if Build raw \<noteq> None then PatternDockerfile
      else PatternImage)"

definition GetComposeFiles :: "RawDevContainer \<Rightarrow> string list" where
  "GetComposeFiles raw =
     (case DockerComposeFile raw of
        None \<Rightarrow> []
      | Some (JString v) \<Rightarrow> [v]
      | Some (JArray v) \<Rightarrow>
          concat (map (\<lambda>item. case item of JString s \<Rightarrow> [s] | _ \<Rightarrow> []) v)
      | Some _ \<Rightarrow> [])"

section \<open>Rewriting devcontainer.json (package devcontainer, rewrite.go)\<close>

text \<open>
  \<open>jsonc.ToJSON\<close>, \<open>json.Unmarshal\<close> and \<open>json.MarshalIndent\<close> are library code. The
  model of \<open>RewriteConfig\<close> starts from what \<open>json.Unmarshal\<close> leaves in \<open>configMap\<close>
  and ends with the map that is handed to \<open>json.MarshalIndent\<close>, whose text is the output.
  Unmarshalling fails on a document that is not an object or \<open>null\<close>; the document
  \<open>null\<close> leaves \<open>configMap\<close> a nil map, and the first assignment to it panics.
\<close>

type_synonym configMap = "(string \<times> json) list"

datatype unmarshalled = UnmarshalError | NilMap | Object configMap

datatype rewritten = RewriteError | RewritePanic | Rewritten configMap

definition applyRunArgsLabels :: "configMap \<Rightarrow> labels \<Rightarrow> configMap" where
  "applyRunArgsLabels configMap labels =
     (let runArgs = (case map_of configMap ''runArgs'' of
                       Some (JArray arr) \<Rightarrow> Some arr
                     | _ \<Rightarrow> None);
          keys = sort (map fst labels);
          appended = concat (map (\<lambda>key. [JString ''--label'',
                                           JString (key @ ''='' @ lookup_str labels key)]) keys)
      in AList.update ''runArgs''
           (case runArgs of
              Some arr \<Rightarrow> JArray (arr @ appended)
            | None \<Rightarrow> if appended = [] then JNull else JArray appended)
           configMap)"

definition applyAppPortShift :: "configMap \<Rightarrow> PortAllocation list \<Rightarrow> configMap" where
  "applyAppPortShift configMap portAllocations =
     (if length portAllocations = 0 then AList.delete ''appPort'' configMap
      else
        let appPorts = map (\<lambda>pa. JString (Itoa (HostPort pa) @ '':'' @ Itoa (ContainerPort pa)))
                         portAllocations
        in AList.update ''appPort'' (JArray appPorts) configMap)"

definition applyPortsAttributesShift :: "configMap \<Rightarrow> PortAllocation list \<Rightarrow> configMap" where
  "applyPortsAttributesShift configMap portAllocations =
     (case map_of configMap ''portsAttributes'' of
        Some (JObject oldAttrs) \<Rightarrow>
          (let portMapping =
                 fold (\<lambda>pa m. AList.update (Itoa (ContainerPort pa)) (HostPort pa) m)
                   portAllocations [];
               newAttrs =
                 fold (\<lambda>(portKey, attrValue) n.
                         case map_of portMapping portKey of
                           Some hostPort \<Rightarrow> AList.update (Itoa hostPort) attrValue n
                         | None \<Rightarrow> AList.update portKey attrValue n)
                   oldAttrs []
           in AList.update ''portsAttributes'' (JObject newAttrs) configMap)
      | _ \<Rightarrow> configMap)"

definition applyContainerEnv :: "configMap \<Rightarrow> string \<Rightarrow> int \<Rightarrow> configMap" where
  "applyContainerEnv configMap envName worktreeIndex =
     (let envMap = (case map_of configMap ''containerEnv'' of
                      Some (JObject m) \<Rightarrow> m
                    | _ \<Rightarrow> []);
          envMap = AList.update ''WORKTREE_NAME'' (JString envName) envMap;
          envMap = AList.update ''WORKTREE_INDEX'' (JString (Itoa worktreeIndex)) envMap
      in AList.update ''containerEnv'' (JObject envMap) configMap)"

definition RewriteConfig ::
  "unmarshalled \<Rightarrow> string \<Rightarrow> int \<Rightarrow> PortAllocation list \<Rightarrow> labels \<Rightarrow> rewritten" where
  "RewriteConfig decoded envName worktreeIndex portAllocations labels =
     (case decoded of
        UnmarshalError \<Rightarrow> RewriteError
      | NilMap \<Rightarrow> RewritePanic
      | Object configMap \<Rightarrow>
          (let configMap = AList.update ''name'' (JString envName) configMap;
               configMap = applyRunArgsLabels configMap labels;
               configMap = applyAppPortShift configMap portAllocations;
               configMap = applyPortsAttributesShift configMap portAllocations;
               configMap = applyContainerEnv configMap envName worktreeIndex
           in Rewritten configMap))"

definition rewriter_keys :: "string set" where
  \<comment> \<open>the keys that \<open>RewriteConfig\<close> writes or deletes\<close>
  "rewriter_keys = {''name'', ''runArgs'', ''appPort'', ''portsAttributes'', ''containerEnv''}"

section \<open>Containers of an environment (package docker, container.go)\<close>

text \<open>
  The Docker daemon is a parameter: the result of \<open>docker.NewClient\<close> followed by
  \<open>docker.ListManagedContainers\<close> is either an error or the managed containers.
\<close>

type_synonym docker = "go_error + ContainerInfo list"

definition GroupContainersByEnv :: "ContainerInfo list \<Rightarrow> (string \<times> ContainerInfo list) list" where
  "GroupContainersByEnv containers =
     fold (\<lambda>c groups.
             case map_of (Labels c) LabelName of
               None \<Rightarrow> groups
             | Some envName \<Rightarrow>
                 if envName = [] then groups
                 else AList.update envName
                        ((case map_of groups envName of None \<Rightarrow> [] | Some cs \<Rightarrow> cs) @ [c])
                        groups)
       containers []"

section \<open>Branch-name sanitization (package cli, create.go)\<close>

text \<open>
  \<open>for _, r := range name\<close> decodes the string as UTF-8: each step yields one rune and
  advances by its width; an invalid sequence yields \<open>RuneError\<close> (U+FFFD) and advances by
  one byte. \<open>DecodeRuneInString\<close> is that decoding step. \<open>strings.ReplaceAll\<close> and
  \<open>strings.Trim\<close> are used with one-byte ASCII arguments only and are modelled for a
  single byte.
\<close>

definition RuneError :: nat where "RuneError = 65533"

definition byte_in :: "nat \<Rightarrow> nat \<Rightarrow> char \<Rightarrow> bool" where
  "byte_in lo hi c = (lo \<le> of_char c \<and> (of_char c :: nat) \<le> hi)"

fun DecodeRuneInString :: "string \<Rightarrow> nat \<times> nat" where
  "DecodeRuneInString [] = (RuneError, 0)"
| "DecodeRuneInString (c0 # rest) =
     (let b0 = (of_char c0 :: nat) in
      if b0 < 128 then (b0, 1)
      else if 194 \<le> b0 \<and> b0 \<le> 223 then
        (case rest of
           c1 # _ \<Rightarrow>
             if byte_in 128 191 c1 then (b0 mod 32 * 64 + of_char c1 mod 64, 2)
             else (RuneError, 1)
         | _ \<Rightarrow> (RuneError, 1))
      else if 224 \<le> b0 \<and> b0 \<le> 239 then
        (case rest of
           c1 # c2 # _ \<Rightarrow>
             if byte_in (if b0 = 224 then 160 else 128) (if b0 = 237 then 159 else 191) c1 \<and>
                byte_in 128 191 c2
             then (b0 mod 16 * 4096 + of_char c1 mod 64 * 64 + of_char c2 mod 64, 3)
             else (RuneError, 1)
         | _ \<Rightarrow> (RuneError, 1))
      else if 240 \<le> b0 \<and> b0 \<le> 244 then
        (case rest of
           c1 # c2 # c3 # _ \<Rightarrow>
             if byte_in (if b0 = 240 then 144 else 128) (if b0 = 244 then 143 else 191) c1 \<and>
                byte_in 128 191 c2 \<and> byte_in 128 191 c3
             then (b0 mod 8 * 262144 + of_char c1 mod 64 * 4096 + of_char c2 mod 64 * 64
                     + of_char c3 mod 64, 4)
             else (RuneError, 1)
         | _ \<Rightarrow> (RuneError, 1))
      else (RuneError, 1))"

definition keep_rune :: "nat \<Rightarrow> bool" where
  "keep_rune r = ((97 \<le> r \<and> r \<le> 122) \<or> (65 \<le> r \<and> r \<le> 90) \<or> (48 \<le> r \<and> r \<le> 57) \<or> r = 45)"

function sanitize_loop :: "string \<Rightarrow> string \<Rightarrow> string" where
  "sanitize_loop result [] = result"
| "sanitize_loop result (c # cs) =
     (case DecodeRuneInString (c # cs) of
        (r, width) \<Rightarrow>
          sanitize_loop (if keep_rune r then result @ [char_of r] else result)
            (drop width (c # cs)))"
  by pat_completeness auto
termination
  by (relation "measure (\<lambda>(result, s). length s)")
     (auto simp: Let_def split: if_splits list.splits)

definition ReplaceAll_byte :: "string \<Rightarrow> char \<Rightarrow> char \<Rightarrow> string" where
  "ReplaceAll_byte s old new = map (\<lambda>c. if c = old then new else c) s"

definition Trim_byte :: "string \<Rightarrow> char \<Rightarrow> string" where
  "Trim_byte s c = rev (dropWhile (\<lambda>x. x = c) (rev (dropWhile (\<lambda>x. x = c) s)))"

definition sanitizeBranchName :: "string \<Rightarrow> string" where
  "sanitizeBranchName branch =
     (let name = ReplaceAll_byte branch (CHR ''/'') (CHR ''-'');
          name = ReplaceAll_byte name (CHR ''_'') (CHR ''-'');
          name = sanitize_loop [] name;
          name = Trim_byte name (CHR ''-'')
      in if name = [] then ''worktree'' else name)"

section \<open>The create command (package cli, create.go)\<close>

text \<open>Step 2 of \<open>runCreate\<close>: the environment name from the \<open>--name\<close> flag or the branch.\<close>

definition runCreate_envName :: "string \<Rightarrow> string \<Rightarrow> go_error + string" where
  "runCreate_envName flagName branchName =
     (let envName = (if flagName = [] then sanitizeBranchName branchName else flagName)
      in case ValidateName envName of
           Some validateErr \<Rightarrow>
             Inl (WrapCLIError ExitGeneralError (Plain ''invalid environment name'')
                    (NameError validateErr))
         | None \<Rightarrow> Inr envName)"

definition countComposeServices :: "RawDevContainer \<Rightarrow> int" where
  "countComposeServices raw =
     (if length (RunServices raw) > 0 then int (length (RunServices raw))
      else if Service raw \<noteq> [] then 1
      else 0)"

text \<open>
  Step 6 of \<open>runCreate\<close>: \<open>composeServiceCount\<close> starts at 0 and is set from
  \<open>countComposeServices\<close> when \<open>GetComposeFiles\<close> returns at least one file; the pattern
  is \<open>DetectPattern\<close> of that count.
\<close>

definition runCreate_serviceCount :: "RawDevContainer \<Rightarrow> int" where
  "runCreate_serviceCount raw =
     (let composeFiles = GetComposeFiles raw
      in if length composeFiles > 0 then countComposeServices raw else 0)"

definition runCreate_pattern :: "RawDevContainer \<Rightarrow> ConfigPattern" where
  "runCreate_pattern raw = DetectPattern raw (runCreate_serviceCount raw)"

definition determineWorktreeIndex :: "docker \<Rightarrow> int \<times> go_error option" where
  \<comment> \<open>Go's pair \<open>(int, error)\<close>; \<open>None\<close> is the \<open>nil\<close> error\<close>
  "determineWorktreeIndex d =
     (case d of
        Inl err \<Rightarrow> (1, Some err)
      | Inr containers \<Rightarrow>
          (let groups = GroupContainersByEnv containers;
               index = int (length groups) + 1
           in if index > 9 then (0, Some (MaxEnvironmentsReached (int (length groups))))
              else (index, None)))"

definition loadExistingAllocations :: "docker \<Rightarrow> go_error + PortAllocation list" where
  "loadExistingAllocations d =
     (case d of
        Inl err \<Rightarrow> Inl err
      | Inr containers \<Rightarrow>
          Inr (concat (map (\<lambda>c. case ParsePortLabels (Labels c) of
                                   Inl err \<Rightarrow> []
                                 | Inr portAllocs \<Rightarrow> portAllocs) containers)))"

text \<open>
  Steps 7 and 8 of \<open>runCreate\<close> after port extraction: the worktree index, the existing
  allocations and the batch allocation. \<open>determineWorktreeIndex\<close> and
  \<open>loadExistingAllocations\<close> each ask Docker for the managed containers; they are given
  the same answer \<open>d\<close>. The result is the CLI error of the command or the index and the
  allocations it goes on with.
\<close>

definition runCreate_allocate ::
  "host \<Rightarrow> docker \<Rightarrow> PortSpec list \<Rightarrow> go_error + (int \<times> PortAllocation list)" where
  "runCreate_allocate h d originalPorts =
     (let (worktreeIndex0, err) = determineWorktreeIndex d;
          worktreeIndex = (if err \<noteq> None then 1 else worktreeIndex0);
          existing = (case loadExistingAllocations d of
                        Inl err \<Rightarrow> []
                      | Inr existingAllocs \<Rightarrow> existingAllocs)
      in case AllocatePorts h existing originalPorts worktreeIndex of
           Inl err \<Rightarrow>
             Inl (WrapCLIError ExitPortAllocationFailed (Plain ''port allocation failed'')
                    (AllocError err))
         | Inr portAllocations \<Rightarrow> Inr (worktreeIndex, portAllocations))"

section \<open>The start command (package cli, start.go)\<close>

text \<open>
  What \<open>runStart\<close> does to Docker is recorded as a trace of actions. \<open>ComposeUp p n\<close> is
  \<open>docker compose up -d\<close> run in the \<open>.devcontainer\<close> directory of worktree path \<open>p\<close> with
  \<open>COMPOSE_PROJECT_NAME = n\<close>; \<open>StartContainer i\<close> is \<open>ContainerStart\<close> of the container
  with ID \<open>i\<close>. The outcome of each action is a parameter. The slice expression
  \<open>c.ContainerID[:12]\<close> panics on an ID shorter than 12 bytes.
\<close>

datatype action = ComposeUp string string | StartContainer string

record docker_ops =
  compose_up :: "string \<Rightarrow> string \<Rightarrow> go_error option"
  container_start :: "string \<Rightarrow> go_error option"

datatype outcome = Succeeded | Failed go_error | Panicked

fun runStart_containers ::
  "docker_ops \<Rightarrow> ContainerInfo list \<Rightarrow> action list \<Rightarrow> outcome \<times> action list" where
  "runStart_containers ops [] trace = (Succeeded, trace)"
| "runStart_containers ops (c # rest) trace =
     (if length (ContainerID c) < 12 then (Panicked, trace)
      else case container_start ops (ContainerID c) of
             Some err \<Rightarrow>
               (Failed (WrapCLIError ExitGeneralError
                          (Sprintf ''failed to start container %q'' [StrArg (ContainerName c)])
                          err),
                trace @ [StartContainer (ContainerID c)])
           | None \<Rightarrow> runStart_containers ops rest (trace @ [StartContainer (ContainerID c)]))"

text \<open>
  \<open>found\<close> is the result of steps 1 and 2 (connecting to Docker and \<open>findEnvironment\<close>):
  an error, or the environment and its containers.
\<close>

definition runStart ::
  "host \<Rightarrow> docker_ops \<Rightarrow> (go_error + 't WorktreeEnv \<times> ContainerInfo list) \<Rightarrow> string
     \<Rightarrow> outcome \<times> action list" where
  "runStart h ops found envName =
     (case found of
        Inl err \<Rightarrow> (Failed err, [])
      | Inr (env, containers) \<Rightarrow>
          (let conflictingPorts =
                 map HostPort
                   (filter (\<lambda>pa. \<not> IsPortAvailable h (HostPort pa) (Protocol pa))
                      (PortAllocations env))
           in if length conflictingPorts > 0 then
                (Failed (NewCLIError ExitPortAllocationFailed
                           (Sprintf ''port conflict: the following ports are already in use: %v''
                              [IntsArg conflictingPorts])),
                 [])
              else if IsCompose (ConfigPattern env) then
                (case compose_up ops (WorktreePath env) envName of
                   Some err \<Rightarrow>
                     (Failed (WrapCLIError ExitGeneralError
                                (Sprintf ''failed to start environment %q'' [StrArg envName])
                                err),
                      [ComposeUp (WorktreePath env) envName])
                 | None \<Rightarrow> (Succeeded, [ComposeUp (WorktreePath env) envName]))
              else runStart_containers ops containers []))"

section \<open>The service count in the words of the specification\<close>

text \<open>
  For comparison with \<open>runCreate_serviceCount\<close>: the count obtained by reading the
  referenced Compose files, the length of \<open>runServices\<close> being authoritative where the
  configuration lists it. \<open>servicesOf f\<close> is the list of services that Compose file \<open>f\<close>
  defines.
\<close>

definition spec_serviceCount :: "(string \<Rightarrow> string list) \<Rightarrow> RawDevContainer \<Rightarrow> int" where
  "spec_serviceCount servicesOf raw =
     (if RunServices raw \<noteq> [] then int (length (RunServices raw))
      else int (length (remdups (concat (map servicesOf (GetComposeFiles raw))))))"

section \<open>Auxiliary definitions and example values\<close>

definition port_entry :: "PortAllocation \<Rightarrow> string \<times> string" where
  "port_entry pa = (BuildPortLabel (ContainerPort pa), Itoa (HostPort pa))"

definition parsed_port :: "PortAllocation \<Rightarrow> PortAllocation" where
  "parsed_port pa = \<lparr>ServiceName = [], ContainerPort = ContainerPort pa,
                     HostPort = HostPort pa, Protocol = ''tcp'', Label = []\<rparr>"

definition is_port_label :: "string \<times> string \<Rightarrow> bool" where
  "is_port_label e = HasPrefix (fst e) LabelOriginalPortPrefix"

definition parsed_entry :: "string \<times> string \<Rightarrow> PortAllocation" where
  "parsed_entry e =
     \<lparr>ServiceName = [],
      ContainerPort = the (Atoi (TrimPrefix (fst e) LabelOriginalPortPrefix)),
      HostPort = the (Atoi (snd e)), Protocol = ''tcp'', Label = []\<rparr>"

definition base_labels :: "'t library \<Rightarrow> 't WorktreeEnv \<Rightarrow> labels" where
  "base_labels T env =
       [(LabelManagedBy, ManagedByValue),
        (LabelName, Name env),
        (LabelBranch, Branch env),
        (LabelWorktreePath, WorktreePath env),
        (LabelSourceRepo, SourceRepoPath env),
        (LabelConfigPattern, ConfigPattern env),
        (LabelCreatedAt, Format_RFC3339 T (CreatedAt env))]"

text \<open>Instants of the example environments: UTC civil times.\<close>

record civil =
  year :: nat
  month :: nat
  day :: nat
  hour :: nat
  minute :: nat
  second :: nat
  nanosecond :: nat

definition env_s5 :: "civil WorktreeEnv" where
  "env_s5 = \<lparr>Name = ''env-1'', Branch = ''feature/auth'', WorktreePath = ''/w/repo-env-1'',
     SourceRepoPath = ''/w/repo'', Status = ''running'', ConfigPattern = PatternComposeMulti,
     Containers = [],
     PortAllocations =
       [\<lparr>ServiceName = ''app'', ContainerPort = 3000, HostPort = 13000, Protocol = ''tcp'', Label = []\<rparr>,
        \<lparr>ServiceName = ''db'', ContainerPort = 5432, HostPort = 15432, Protocol = ''tcp'', Label = []\<rparr>],
     CreatedAt = \<lparr>year = 2026, month = 2, day = 28, hour = 10, minute = 0, second = 0, nanosecond = 7\<rparr>\<rparr>"

definition env_dup :: "civil WorktreeEnv" where
  "env_dup = \<lparr>Name = ''env-1'', Branch = ''feature/auth'', WorktreePath = ''/w/repo-env-1'',
     SourceRepoPath = ''/w/repo'', Status = ''running'', ConfigPattern = PatternComposeMulti,
     Containers = [],
     PortAllocations =
       [\<lparr>ServiceName = ''frontend'', ContainerPort = 3000, HostPort = 13000, Protocol = ''tcp'', Label = []\<rparr>,
        \<lparr>ServiceName = ''backend'', ContainerPort = 3000, HostPort = 13001, Protocol = ''tcp'', Label = []\<rparr>],
     CreatedAt = \<lparr>year = 2026, month = 2, day = 28, hour = 10, minute = 0, second = 0, nanosecond = 0\<rparr>\<rparr>"

definition managed :: "string \<Rightarrow> labels \<Rightarrow> ContainerInfo" where
  \<comment> \<open>a running managed container of the environment \<open>n\<close> with the extra labels \<open>ls\<close>\<close>
  "managed n ls =
     \<lparr>ContainerID = n @ ''-0123456789ab'', ContainerName = n, ServiceName = [],
      Status = ''running'',
      Labels = [(LabelManagedBy, ManagedByValue), (LabelName, n)] @ ls\<rparr>"

definition nine_environments :: "ContainerInfo list" where
  "nine_environments =
     [managed ''e1'' [(''worktree.original-port.3000'', ''13000'')],
      managed ''e2'' [], managed ''e3'' [], managed ''e4'' [], managed ''e5'' [],
      managed ''e6'' [], managed ''e7'' [], managed ''e8'' [], managed ''e9'' []]"

definition compose_app_only :: RawDevContainer where
  \<comment> \<open>\<open>{"dockerComposeFile": "docker-compose.yml", "service": "app"}\<close>\<close>
  "compose_app_only =
     \<lparr>RawDevContainer.Name = [], Image' = [], Build = None,
      DockerComposeFile = Some (JString ''docker-compose.yml''), Service = ''app'',
      RunServices = [], WorkspaceFolder = [], ForwardPorts = [], AppPort = None,
      PortsAttributes = [], ContainerEnv = [], RunArgs = [], ShutdownAction = []\<rparr>"

definition compose_no_file :: RawDevContainer where
  \<comment> \<open>\<open>{"dockerComposeFile": [], "runServices": ["app", "db"]}\<close>\<close>
  "compose_no_file =
     \<lparr>RawDevContainer.Name = [], Image' = [], Build = None,
      DockerComposeFile = Some (JArray []), Service = [],
      RunServices = [''app'', ''db''], WorkspaceFolder = [], ForwardPorts = [], AppPort = None,
      PortsAttributes = [], ContainerEnv = [], RunArgs = [], ShutdownAction = []\<rparr>"

definition app_and_db :: "string \<Rightarrow> string list" where
  \<comment> \<open>a file system whose \<open>docker-compose.yml\<close> defines the services app and db\<close>
  "app_and_db f = (if f = ''docker-compose.yml'' then [''app'', ''db''] else [])"

definition always_ok :: docker_ops where
  "always_ok = \<lparr>compose_up = (\<lambda>p n. None), container_start = (\<lambda>i. None)\<rparr>"

definition busy_13000 :: host where
  \<comment> \<open>a host on which port 13000 is taken and every other bind succeeds\<close>
  "busy_13000 = (\<lambda>n p. p \<noteq> 13000)"

definition busy_19999 :: host where
  \<comment> \<open>a host on which port 19999 is taken and every other bind succeeds\<close>
  "busy_19999 = (\<lambda>n p. p \<noteq> 19999)"

definition config_s1 :: configMap where
  \<comment> \<open>\<open>{"name":"x","image":"node:20","appPort":["3000:3000"],
      "portsAttributes":{"3000":{"label":"App"}}}\<close>\<close>
  "config_s1 =
     [(''name'', JString ''x''), (''image'', JString ''node:20''),
      (''appPort'', JArray [JString ''3000:3000'']),
      (''portsAttributes'', JObject [(''3000'', JObject [(''label'', JString ''App'')])])]"

section \<open>Properties of the port allocator\<close>

lemmas eval_alloc =
  AllocatePorts_def AllocatePort_def shiftedPort_def go_int_def blockScan_def blockEnd_def
  findAvailablePortExcludingExisting_def isPortAvailableForAllocation_def IsPortAvailable_def
  net_listen_def all_free_def portShiftMultiplier_def maxPort_def maxWorktreeIndex_def
  dynamicRangeStart_def dynamicRangeEnd_def firstAvailable.simps Let_def port_key_def

lemma go_int_id: "- (2 ^ 63) \<le> x \<Longrightarrow> x < 2 ^ 63 \<Longrightarrow> go_int x = x"
  by (simp add: go_int_def)

lemma shiftedPort_plain:
  "0 \<le> worktreeIndex \<Longrightarrow> worktreeIndex \<le> 9 \<Longrightarrow>
   - (2 ^ 62) \<le> originalPort \<Longrightarrow> originalPort \<le> 2 ^ 62 \<Longrightarrow>
     shiftedPort originalPort worktreeIndex = originalPort + worktreeIndex * 10000"
  by (simp add: shiftedPort_def portShiftMultiplier_def go_int_id)

subsection \<open>The scanning loop\<close>

lemma firstAvailable_Some:
  "firstAvailable h existing protocol port endPort = Some p \<Longrightarrow>
     port \<le> p \<and> p \<le> endPort \<and> isPortAvailableForAllocation h existing p protocol \<and>
     (\<forall>q. port \<le> q \<and> q < p \<longrightarrow> \<not> isPortAvailableForAllocation h existing q protocol)"
proof (induction h existing protocol port endPort rule: firstAvailable.induct)
  case (1 h existing protocol port endPort)
  show ?case
  proof (cases "port \<le> endPort")
    case False
    with "1.prems" show ?thesis by (simp add: firstAvailable.simps)
  next
    case le: True
    show ?thesis
    proof (cases "isPortAvailableForAllocation h existing port protocol")
      case True
      with le "1.prems" have "p = port" by (simp add: firstAvailable.simps)
      with True le show ?thesis by auto
    next
      case False
      with le "1.prems" have rec: "firstAvailable h existing protocol (port + 1) endPort = Some p"
        by (simp add: firstAvailable.simps)
      from "1.IH" [OF le False rec] have
        a: "port + 1 \<le> p" and b: "p \<le> endPort" and
        c: "isPortAvailableForAllocation h existing p protocol" and
        d: "\<forall>q. port + 1 \<le> q \<and> q < p \<longrightarrow> \<not> isPortAvailableForAllocation h existing q protocol"
        by auto
      have "\<not> isPortAvailableForAllocation h existing q protocol" if "port \<le> q" "q < p" for q
      proof (cases "q = port")
        case True then show ?thesis using False by simp
      next
        case False with that d show ?thesis by auto
      qed
      with a b c show ?thesis by auto
    qed
  qed
qed

lemma firstAvailable_None:
  "firstAvailable h existing protocol port endPort = None \<Longrightarrow>
     port \<le> q \<Longrightarrow> q \<le> endPort \<Longrightarrow> \<not> isPortAvailableForAllocation h existing q protocol"
proof (induction h existing protocol port endPort rule: firstAvailable.induct)
  case (1 h existing protocol port endPort)
  from "1.prems" have le: "port \<le> endPort" by simp
  from "1.prems"(1) le have na: "\<not> isPortAvailableForAllocation h existing port protocol"
    by (auto simp: firstAvailable.simps [of h existing protocol port endPort] split: if_splits)
  from "1.prems"(1) le na have rec: "firstAvailable h existing protocol (port + 1) endPort = None"
    by (simp add: firstAvailable.simps [of h existing protocol port endPort])
  show ?case
  proof (cases "q = port")
    case True with na show ?thesis by simp
  next
    case False
    with "1.prems" have "port + 1 \<le> q" by simp
    from "1.IH" [OF le na rec this "1.prems"(3)] show ?thesis .
  qed
qed

subsection \<open>What a successful single allocation returns\<close>

lemma available_key:
  "isPortAvailableForAllocation h existing p protocol \<Longrightarrow>
     (p, protocol) \<notin> set (map port_key existing) \<and> IsPortAvailable h p protocol"
  by (auto simp: isPortAvailableForAllocation_def port_key_def list_ex_iff split: if_splits)

lemma IsPortAvailable_protocol:
  "IsPortAvailable h p protocol \<Longrightarrow>
     (protocol = ''tcp'' \<or> protocol = ''udp'') \<and> 0 \<le> p \<and> p \<le> 65535"
  by (auto simp: IsPortAvailable_def net_listen_def split: if_splits)

lemma AllocatePort_result:
  assumes "AllocatePort h existing originalPort worktreeIndex serviceName protocol0 = Inr a"
  shows "PortAllocation.ServiceName a = serviceName \<and> ContainerPort a = originalPort \<and>
         Label a = [] \<and>
         Protocol a = (if protocol0 = [] then ''tcp'' else protocol0) \<and>
         isPortAvailableForAllocation h existing (HostPort a) (Protocol a) \<and>
         0 \<le> worktreeIndex \<and> worktreeIndex \<le> 9 \<and>
         (HostPort a = shiftedPort originalPort worktreeIndex \<or>
          shiftedPort originalPort worktreeIndex < HostPort a \<or> 49152 \<le> HostPort a)"
  using assms
  unfolding AllocatePort_def findAvailablePortExcludingExisting_def blockScan_def Let_def
  by (auto simp: maxWorktreeIndex_def dynamicRangeStart_def
        split: if_splits option.splits sum.splits dest!: firstAvailable_Some)


lemma port_key_Label [simp]: "port_key (a\<lparr>Label := l\<rparr>) = port_key a"
  by (simp add: port_key_def)

lemma AllocatePort_fresh:
  assumes "AllocatePort h existing originalPort worktreeIndex serviceName protocol0 = Inr a"
  shows "port_key a \<notin> set (map port_key existing)"
proof -
  from AllocatePort_result [OF assms]
  have "isPortAvailableForAllocation h existing (HostPort a) (Protocol a)" by blast
  from available_key [OF this] show ?thesis by (simp add: port_key_def)
qed

subsection \<open>The block scan\<close>

text \<open>
  The window of the block scan as the code computes it. When the shift candidate is not
  available, the scan looks at the ports from \<open>candidate + 1\<close> up to
  \<open>blockEnd = candidate + 10000 - 1\<close>, capped at 65535, and takes the first available
  one: the port it returns lies in that window, is available, no smaller port of the
  window is available, and it is the host port \<open>AllocatePort\<close> returns. When the scan
  finds nothing, no port of the window is available and a successful allocation comes from
  the scan of the dynamic range.
\<close>

lemma blockScan_window:
  assumes idx: "0 \<le> worktreeIndex" "worktreeIndex \<le> 9"
      and cand: "candidate = shiftedPort originalPort worktreeIndex"
      and proto: "protocol = (if protocol0 = [] then ''tcp'' else protocol0)"
      and busy: "\<not> isPortAvailableForAllocation h existing candidate protocol"
  shows "case blockScan h existing protocol candidate of
           Some p \<Rightarrow>
             candidate < p \<and> p \<le> candidate + 9999 \<and> p \<le> 65535 \<and>
             isPortAvailableForAllocation h existing p protocol \<and>
             (\<forall>q. candidate < q \<and> q < p \<longrightarrow>
                  \<not> isPortAvailableForAllocation h existing q protocol) \<and>
             AllocatePort h existing originalPort worktreeIndex serviceName protocol0 =
               Inr \<lparr>ServiceName = serviceName, ContainerPort = originalPort,
                    HostPort = p, Protocol = protocol, Label = []\<rparr>
         | None \<Rightarrow>
             (\<forall>q. candidate < q \<and> q \<le> candidate + 9999 \<and> q \<le> 65535 \<longrightarrow>
                  \<not> isPortAvailableForAllocation h existing q protocol) \<and>
             (\<forall>a. AllocatePort h existing originalPort worktreeIndex serviceName protocol0
                    = Inr a \<longrightarrow>
                  findAvailablePortExcludingExisting h existing 49152 65535 protocol
                    = Inr (HostPort a))"
proof (cases "blockScan h existing protocol candidate")
  case None
  have "\<not> isPortAvailableForAllocation h existing q protocol"
    if "candidate < q" "q \<le> candidate + 9999" "q \<le> 65535" for q
  proof -
    from that have "candidate + 1 \<le> q" "q \<le> blockEnd candidate"
      by (auto simp: blockEnd_def portShiftMultiplier_def maxPort_def)
    with None show ?thesis
      unfolding blockScan_def by (rule firstAvailable_None)
  qed
  moreover
  have "findAvailablePortExcludingExisting h existing 49152 65535 protocol = Inr (HostPort a)"
    if "AllocatePort h existing originalPort worktreeIndex serviceName protocol0 = Inr a" for a
    using that None busy idx
    unfolding AllocatePort_def Let_def cand [symmetric] proto [symmetric]
    by (auto simp: maxWorktreeIndex_def dynamicRangeStart_def dynamicRangeEnd_def
          split: if_splits sum.splits)
  ultimately show ?thesis using None by simp
next
  case (Some p)
  then have fa: "firstAvailable h existing protocol (candidate + 1) (blockEnd candidate) = Some p"
    by (simp add: blockScan_def)
  from firstAvailable_Some [OF fa] have
    lo: "candidate + 1 \<le> p" and hi: "p \<le> blockEnd candidate" and
    av: "isPortAvailableForAllocation h existing p protocol" and
    first: "\<forall>q. candidate + 1 \<le> q \<and> q < p \<longrightarrow>
                \<not> isPortAvailableForAllocation h existing q protocol"
    by auto
  from hi have hi': "p \<le> candidate + 9999 \<and> p \<le> 65535"
    by (auto simp: blockEnd_def portShiftMultiplier_def maxPort_def split: if_splits)
  with lo have small: "\<not> candidate > maxPort" by (simp add: maxPort_def)
  have "AllocatePort h existing originalPort worktreeIndex serviceName protocol0 =
               Inr \<lparr>ServiceName = serviceName, ContainerPort = originalPort,
                    HostPort = p, Protocol = protocol, Label = []\<rparr>"
    using Some busy idx small
    unfolding AllocatePort_def Let_def cand [symmetric] proto [symmetric]
    by (simp add: maxWorktreeIndex_def)
  with lo hi' av first Some show ?thesis by auto
qed

text \<open>
  Claim C2. The 10000-wide block of a candidate is the block of its worktree index: for
  index 1 the ports 10000 to 19999. The code ends the scan at
  \<open>blockEnd = candidate + 10000 - 1\<close>, counted from the candidate, not at the end of that
  block. For container port 9999 at index 1 the candidate 19999 is the last port of the
  block of index 1; on a host where 19999 is taken the block scan returns 20000, a port
  past the end of the block, and \<open>AllocatePort\<close> allocates it.
\<close>

theorem block_scan_leaves_block:
  "shiftedPort 9999 1 = 19999 \<and>
   blockScan busy_19999 [] ''tcp'' 19999 = Some 20000 \<and>
   AllocatePort busy_19999 [] 9999 1 ''web'' ''tcp'' =
     Inr \<lparr>ServiceName = ''web'', ContainerPort = 9999, HostPort = 20000,
          Protocol = ''tcp'', Label = []\<rparr>"
  by (simp add: eval_alloc busy_19999_def)

subsection \<open>The shift formula\<close>

text \<open>
  Claim C3. When the worktree index is in \<open>0..9\<close> and the candidate
  \<open>originalPort + worktreeIndex * 10000\<close> has no conflict (it is not in the known
  allocation set for the protocol and the bind test succeeds, which it only does for a
  port up to 65535), the allocated host port is \<open>originalPort + worktreeIndex * 10000\<close>;
  at index 0 this is the original port.
\<close>

theorem shifted_port_when_free:
  assumes idx: "0 \<le> worktreeIndex" "worktreeIndex \<le> 9"
      and free: "isPortAvailableForAllocation h existing (originalPort + worktreeIndex * 10000)
                   (if protocol0 = [] then ''tcp'' else protocol0)"
  shows "AllocatePort h existing originalPort worktreeIndex serviceName protocol0 =
           Inr \<lparr>ServiceName = serviceName, ContainerPort = originalPort,
                HostPort = originalPort + worktreeIndex * 10000,
                Protocol = (if protocol0 = [] then ''tcp'' else protocol0), Label = []\<rparr>"
proof -
  from free have rng: "0 \<le> originalPort + worktreeIndex * 10000"
      "originalPort + worktreeIndex * 10000 \<le> 65535"
    using available_key IsPortAvailable_protocol by blast+
  with idx have "- (2 ^ 62) \<le> originalPort" "originalPort \<le> 2 ^ 62" by simp_all
  with idx have sh: "shiftedPort originalPort worktreeIndex = originalPort + worktreeIndex * 10000"
    by (rule shiftedPort_plain)
  show ?thesis
    using idx free rng
    unfolding AllocatePort_def Let_def sh
    by (simp add: maxWorktreeIndex_def maxPort_def)
qed

theorem shifted_port_when_free_witness:
  "AllocatePort all_free [] 3000 2 ''app'' [] =
     Inr \<lparr>ServiceName = ''app'', ContainerPort = 3000, HostPort = 23000,
          Protocol = ''tcp'', Label = []\<rparr> \<and>
   AllocatePort all_free [] 3000 0 ''app'' ''udp'' =
     Inr \<lparr>ServiceName = ''app'', ContainerPort = 3000, HostPort = 3000,
          Protocol = ''udp'', Label = []\<rparr>"
  using shifted_port_when_free [of 2 all_free "[]" 3000 "[]" "''app''"]
        shifted_port_when_free [of 0 all_free "[]" 3000 "''udp''" "''app''"]
  by (simp add: isPortAvailableForAllocation_def IsPortAvailable_def net_listen_def all_free_def)

subsection \<open>Uniqueness of host ports\<close>

lemma AllocatePorts_loop_unique:
  "AllocatePorts_loop h worktreeIndex ports (ex0 @ acc) acc = Inr (ex', res) \<Longrightarrow>
   distinct (map port_key acc) \<Longrightarrow> set (map port_key acc) \<inter> set (map port_key ex0) = {} \<Longrightarrow>
   ex' = ex0 @ res \<and> distinct (map port_key res) \<and> set (map port_key res) \<inter> set (map port_key ex0) = {}"
proof (induction ports arbitrary: acc)
  case Nil
  then show ?case by auto
next
  case (Cons ps rest)
  let ?proto = "if PortSpec.Protocol ps = [] then ''tcp'' else PortSpec.Protocol ps"
  from Cons.prems(1) obtain alloc0 where
    a0: "AllocatePort h (ex0 @ acc) (PortSpec.ContainerPort ps) worktreeIndex
           (PortSpec.ServiceName ps) ?proto = Inr alloc0"
    and rec: "AllocatePorts_loop h worktreeIndex rest
                (ex0 @ (acc @ [alloc0\<lparr>Label := PortSpec.Label ps\<rparr>]))
                (acc @ [alloc0\<lparr>Label := PortSpec.Label ps\<rparr>]) = Inr (ex', res)"
    by (auto simp: Let_def split: sum.splits)
  from AllocatePort_fresh [OF a0] have fresh: "port_key alloc0 \<notin> set (map port_key (ex0 @ acc))" .
  have d: "distinct (map port_key (acc @ [alloc0\<lparr>Label := PortSpec.Label ps\<rparr>]))"
    using Cons.prems(2) fresh by auto
  have i: "set (map port_key (acc @ [alloc0\<lparr>Label := PortSpec.Label ps\<rparr>])) \<inter> set (map port_key ex0) = {}"
    using Cons.prems(3) fresh by auto
  from Cons.IH [OF rec d i] show ?case .
qed

text \<open>
  Claim C4. For every batch of port specifications and every list of pre-existing
  allocations, when the batch allocation succeeds no two allocations of the result have the
  same (hostPort, protocol), and no allocation of the result has the (hostPort, protocol)
  of a pre-existing allocation.
\<close>

theorem allocate_ports_unique:
  assumes "AllocatePorts h existing ports worktreeIndex = Inr allocations"
  shows "distinct (map port_key allocations) \<and>
         set (map port_key allocations) \<inter> set (map port_key existing) = {}"
proof -
  from assms obtain ex' where
    "AllocatePorts_loop h worktreeIndex ports (existing @ []) [] = Inr (ex', allocations)"
    by (auto simp: AllocatePorts_def split: sum.splits)
  from AllocatePorts_loop_unique [OF this] show ?thesis by simp
qed

theorem allocate_ports_unique_witness:
  "distinct (map port_key
     [\<lparr>ServiceName = ''frontend'', ContainerPort = 3000, HostPort = 13001,
       Protocol = ''tcp'', Label = []\<rparr>,
      \<lparr>ServiceName = ''backend'', ContainerPort = 3000, HostPort = 13002,
       Protocol = ''tcp'', Label = ''API''\<rparr>]) \<and>
   set (map port_key
     [\<lparr>ServiceName = ''frontend'', ContainerPort = 3000, HostPort = 13001,
       Protocol = ''tcp'', Label = []\<rparr>,
      \<lparr>ServiceName = ''backend'', ContainerPort = 3000, HostPort = 13002,
       Protocol = ''tcp'', Label = ''API''\<rparr>]) \<inter>
   set (map port_key
     [\<lparr>ServiceName = ''other-app'', ContainerPort = 3000, HostPort = 13000,
       Protocol = ''tcp'', Label = []\<rparr>]) = {}"
proof -
  have run: "AllocatePorts all_free
     [\<lparr>ServiceName = ''other-app'', ContainerPort = 3000, HostPort = 13000,
       Protocol = ''tcp'', Label = []\<rparr>]
     [\<lparr>PortSpec.ServiceName = ''frontend'', ContainerPort = 3000, HostPort = 0,
       Protocol = ''tcp'', Label = []\<rparr>,
      \<lparr>PortSpec.ServiceName = ''backend'', ContainerPort = 3000, HostPort = 0,
       Protocol = [], Label = ''API''\<rparr>] 1
   = Inr [\<lparr>ServiceName = ''frontend'', ContainerPort = 3000, HostPort = 13001,
           Protocol = ''tcp'', Label = []\<rparr>,
          \<lparr>ServiceName = ''backend'', ContainerPort = 3000, HostPort = 13002,
           Protocol = ''tcp'', Label = ''API''\<rparr>]"
    by (simp add: eval_alloc)
  from allocate_ports_unique [OF run] show ?thesis .
qed

subsection \<open>Fields and range of the allocations of a batch\<close>






section \<open>Properties of branch-name sanitization\<close>

lemma sanitize_loop_chars:
  "set (sanitize_loop result s) \<subseteq> set result \<union> {c. in_class alnum_hyphen c}"
proof (induction result s rule: sanitize_loop.induct)
  case (1 result)
  then show ?case by simp
next
  case (2 result c cs)
  obtain r w where d: "DecodeRuneInString (c # cs) = (r, w)" by force
  have k: "in_class alnum_hyphen (char_of r)" if "keep_rune r"
    using that by (auto simp: keep_rune_def in_class_def alnum_hyphen_def)
  from "2.IH" [OF d [symmetric]] d k show ?case
    by (auto split: if_splits)
qed

lemma Trim_byte_prefix: "\<exists>zs. dropWhile (\<lambda>x. x = c) s = Trim_byte s c @ zs"
proof -
  let ?ys = "dropWhile (\<lambda>x. x = c) s"
  have "Trim_byte s c @ rev (takeWhile (\<lambda>x. x = c) (rev ?ys)) =
        rev (takeWhile (\<lambda>x. x = c) (rev ?ys) @ dropWhile (\<lambda>x. x = c) (rev ?ys))"
    by (simp only: rev_append Trim_byte_def)
  also have "\<dots> = rev (rev ?ys)" by (simp only: takeWhile_dropWhile_id)
  also have "\<dots> = ?ys" by simp
  finally show ?thesis by (intro exI) (rule sym)
qed

lemma Trim_byte_set: "set (Trim_byte s c) \<subseteq> set s"
proof -
  obtain zs where "dropWhile (\<lambda>x. x = c) s = Trim_byte s c @ zs"
    using Trim_byte_prefix by blast
  then have "set (Trim_byte s c) \<subseteq> set (dropWhile (\<lambda>x. x = c) s)" by simp
  also have "\<dots> \<subseteq> set s" by (rule set_dropWhileD [THEN subsetI]) 
  finally show ?thesis .
qed

lemma Trim_byte_hd: "Trim_byte s c \<noteq> [] \<Longrightarrow> hd (Trim_byte s c) \<noteq> c"
proof -
  assume ne: "Trim_byte s c \<noteq> []"
  obtain zs where z: "dropWhile (\<lambda>x. x = c) s = Trim_byte s c @ zs"
    using Trim_byte_prefix by blast
  with ne have "dropWhile (\<lambda>x. x = c) s \<noteq> []" by auto
  then have "hd (dropWhile (\<lambda>x. x = c) s) \<noteq> c" by (rule hd_dropWhile)
  with z ne show ?thesis by simp
qed

lemma Trim_byte_last: "Trim_byte s c \<noteq> [] \<Longrightarrow> last (Trim_byte s c) \<noteq> c"
proof -
  assume ne: "Trim_byte s c \<noteq> []"
  let ?d = "dropWhile (\<lambda>x. x = c) (rev (dropWhile (\<lambda>x. x = c) s))"
  from ne have d: "?d \<noteq> []" by (simp add: Trim_byte_def)
  then have "hd ?d \<noteq> c" by (rule hd_dropWhile)
  moreover have "last (Trim_byte s c) = hd ?d"
    using d by (simp add: Trim_byte_def last_rev)
  ultimately show ?thesis by simp
qed

lemma hyphen_code: "(of_char c :: nat) = 45 \<Longrightarrow> c = CHR ''-''"
proof -
  assume "(of_char c :: nat) = 45"
  then have "(of_char c :: nat) = of_char (CHR ''-'')" by simp
  then show ?thesis by (simp only: of_char_eq_iff)
qed

lemma in_class_alnum: "in_class alnum_hyphen c \<Longrightarrow> c \<noteq> CHR ''-'' \<Longrightarrow> in_class alnum c"
  by (auto simp: in_class_def alnum_hyphen_def alnum_def dest: hyphen_code)

lemma matches_nameRegex:
  assumes ne: "s \<noteq> []"
      and all: "\<forall>c \<in> set s. in_class alnum_hyphen c"
      and h: "in_class alnum (hd s)"
      and l: "in_class alnum (last s)"
  shows "matches nameRegex s"
proof (cases "length s = 1")
  case True
  then obtain c where "s = [c]" by (cases s) auto
  with h show ?thesis by (simp add: nameRegex_def)
next
  case False
  with ne obtain a t where s: "s = a # t" and t: "t \<noteq> []" by (cases s) auto
  from t obtain mid b where tb: "t = mid @ [b]" by (metis rev_exhaust)
  from h s have a: "in_class alnum a" by simp
  from l s tb have b: "in_class alnum b" by simp
  from all s tb have m: "list_all (in_class alnum_hyphen) mid" by (simp add: list_all_iff)
  have inner: "matches (Concat (ClassStar alnum_hyphen) (Class alnum)) (mid @ [b])"
    unfolding matches.simps(3) list_ex_iff
  proof (rule bexI [where x = "length mid"])
    show "matches (ClassStar alnum_hyphen) (take (length mid) (mid @ [b])) \<and>
          matches (Class alnum) (drop (length mid) (mid @ [b]))"
      using m b by simp
    show "length mid \<in> set [0..<Suc (length (mid @ [b]))]" by (simp del: upt_Suc)
  qed
  have "matches (Concat (Class alnum) (Concat (ClassStar alnum_hyphen) (Class alnum))) (a # mid @ [b])"
    unfolding matches.simps(3) [of "Class alnum"] list_ex_iff
  proof (rule bexI [where x = 1])
    show "matches (Class alnum) (take 1 (a # mid @ [b])) \<and>
          matches (Concat (ClassStar alnum_hyphen) (Class alnum)) (drop 1 (a # mid @ [b]))"
      using a inner by (simp del: matches.simps(3))
    show "1 \<in> set [0..<Suc (length (a # mid @ [b]))]" by (simp del: upt_Suc)
  qed
  then show ?thesis unfolding nameRegex_def s tb matches.simps(4) by (rule disjI1)
qed

lemma sanitizeBranchName_shape:
  "sanitizeBranchName branch \<noteq> [] \<and>
   (\<forall>c \<in> set (sanitizeBranchName branch). in_class alnum_hyphen c) \<and>
   in_class alnum (hd (sanitizeBranchName branch)) \<and>
   in_class alnum (last (sanitizeBranchName branch))"
proof -
  let ?n = "sanitize_loop []
              (ReplaceAll_byte (ReplaceAll_byte branch (CHR ''/'') (CHR ''-'')) (CHR ''_'') (CHR ''-''))"
  let ?t = "Trim_byte ?n (CHR ''-'')"
  show ?thesis
  proof (cases "?t = []")
    case True
    then have "sanitizeBranchName branch = ''worktree''"
      by (simp add: sanitizeBranchName_def)
    then show ?thesis by (simp add: in_class_def alnum_def alnum_hyphen_def)
  next
    case False
    then have eq: "sanitizeBranchName branch = ?t"
      by (simp add: sanitizeBranchName_def)
    have "set ?t \<subseteq> set ?n" by (rule Trim_byte_set)
    also have "\<dots> \<subseteq> {c. in_class alnum_hyphen c}"
      using sanitize_loop_chars [of "[]"] by simp
    finally have all: "\<forall>c \<in> set ?t. in_class alnum_hyphen c" by auto
    from False have "hd ?t \<in> set ?t" "last ?t \<in> set ?t" by simp_all
    with all have "in_class alnum_hyphen (hd ?t)" "in_class alnum_hyphen (last ?t)" by blast+
    with Trim_byte_hd [OF False] Trim_byte_last [OF False]
    have "in_class alnum (hd ?t)" "in_class alnum (last ?t)"
      by (auto intro: in_class_alnum)
    with False all show ?thesis unfolding eq by blast
  qed
qed

text \<open>
  Claim C10. For every branch name, the name produced by \<open>sanitizeBranchName\<close> is
  non-empty and passes \<open>ValidateName\<close>; so when no \<open>--name\<close> flag is given, the name
  step of \<open>runCreate\<close> does not fail and yields the sanitized name.
\<close>

theorem sanitized_name_is_valid:
  "sanitizeBranchName branch \<noteq> [] \<and>
   ValidateName (sanitizeBranchName branch) = None \<and>
   runCreate_envName [] branch = Inr (sanitizeBranchName branch)"
proof -
  from sanitizeBranchName_shape [of branch]
  have "matches nameRegex (sanitizeBranchName branch)"
    by (intro matches_nameRegex) blast+
  with sanitizeBranchName_shape [of branch] show ?thesis
    by (simp add: ValidateName_def runCreate_envName_def)
qed

theorem sanitized_name_is_valid_witness:
  "sanitizeBranchName ''feature/auth_x'' = ''feature-auth-x'' \<and>
   ValidateName ''feature-auth-x'' = None \<and>
   runCreate_envName [] ''feature/auth_x'' = Inr ''feature-auth-x''"
proof -
  have s: "sanitizeBranchName ''feature/auth_x'' = ''feature-auth-x''"
    by (simp add: sanitizeBranchName_def ReplaceAll_byte_def Trim_byte_def keep_rune_def
          Let_def char_of_eq_iff)
  from sanitized_name_is_valid [of "''feature/auth_x''"] show ?thesis
    unfolding s by simp
qed

section \<open>Properties of the label store\<close>

subsection \<open>Decimal numbers\<close>

lemma digit_val_digit_char: "d < 10 \<Longrightarrow> digit_val (digit_char d) = Some d"
  by (simp add: digit_val_def digit_char_def)

lemma parse_digits_append:
  "parse_digits acc (xs @ ys) =
     (case parse_digits acc xs of None \<Rightarrow> None | Some v \<Rightarrow> parse_digits v ys)"
  by (induction xs arbitrary: acc) (auto split: option.splits)

lemma parse_nat_digits: "parse_digits 0 (nat_digits n) = Some n"
proof (induction n rule: nat_digits.induct)
  case (1 n)
  show ?case
  proof (cases "n < 10")
    case True
    then show ?thesis
      by (simp add: nat_digits.simps [of n] digit_val_digit_char)
  next
    case False
    have "n mod 10 < 10" by simp
    with False "1.IH" show ?thesis
      by (simp add: nat_digits.simps [of n] parse_digits_append digit_val_digit_char)
  qed
qed

lemma nat_digits_Cons:
  "\<exists>c cs. nat_digits n = c # cs \<and> c \<noteq> CHR ''-'' \<and> c \<noteq> CHR ''+''"
proof -
  have "nat_digits n \<noteq> []" by (simp add: nat_digits.simps [of n])
  then obtain c cs where cs: "nat_digits n = c # cs" by (cases "nat_digits n") auto
  with parse_nat_digits [of n] have "digit_val c \<noteq> None"
    by (auto split: option.splits)
  then have "c \<noteq> CHR ''-'' \<and> c \<noteq> CHR ''+''"
    by (auto simp: digit_val_def)
  with cs show ?thesis by blast
qed

lemma Atoi_Itoa: "int64 i \<Longrightarrow> Atoi (Itoa i) = Some i"
proof -
  assume r: "int64 i"
  show ?thesis
  proof (cases "i < 0")
    case True
    obtain c cs where "nat_digits (nat (- i)) = c # cs" using nat_digits_Cons by blast
    then have ne: "nat_digits (nat (- i)) \<noteq> []" by simp
    from True r ne parse_nat_digits [of "nat (- i)"] show ?thesis
      by (simp add: Atoi_def Itoa_def int64_def)
  next
    case False
    obtain c cs where cs: "nat_digits (nat i) = c # cs" "c \<noteq> CHR ''-''" "c \<noteq> CHR ''+''"
      using nat_digits_Cons by blast
    from False r cs parse_nat_digits [of "nat i"] show ?thesis
      by (simp add: Atoi_def Itoa_def int64_def)
  qed
qed

lemma Itoa_inj: "int64 i \<Longrightarrow> int64 j \<Longrightarrow> Itoa i = Itoa j \<Longrightarrow> i = j"
  using Atoi_Itoa by (metis option.inject)

lemma update_fresh: "k \<notin> fst ` set al \<Longrightarrow> AList.update k v al = al @ [(k, v)]"
  by (induction al) auto


subsection \<open>The labels of an environment\<close>

lemmas label_names =
  LabelPrefix_def LabelManagedBy_def LabelName_def LabelBranch_def LabelWorktreePath_def
  LabelSourceRepo_def LabelOriginalPortPrefix_def LabelConfigPattern_def LabelCreatedAt_def

lemma port_label_prefix: "HasPrefix (BuildPortLabel p) LabelOriginalPortPrefix"
  by (simp add: HasPrefix_def BuildPortLabel_def)

lemma port_label_trim: "TrimPrefix (BuildPortLabel p) LabelOriginalPortPrefix = Itoa p"
  by (simp add: TrimPrefix_def HasPrefix_def BuildPortLabel_def)

lemma base_no_port_prefix:
  "k \<in> fst ` set (base_labels T env) \<Longrightarrow> \<not> HasPrefix k LabelOriginalPortPrefix"
  by (auto simp: base_labels_def HasPrefix_def label_names)

lemma port_label_inj:
  "int64 p \<Longrightarrow> int64 q \<Longrightarrow> BuildPortLabel p = BuildPortLabel q \<Longrightarrow> p = q"
  by (auto simp: BuildPortLabel_def dest: Itoa_inj)

lemma fold_port_labels:
  assumes "distinct (map ContainerPort ports)"
      and "\<forall>pa \<in> set ports. int64 (ContainerPort pa)"
      and "\<forall>pa \<in> set ports. BuildPortLabel (ContainerPort pa) \<notin> fst ` set al"
  shows "fold (\<lambda>pa labels. AList.update (BuildPortLabel (ContainerPort pa))
                              (Itoa (HostPort pa)) labels) ports al
         = al @ map port_entry ports"
  using assms
proof (induction ports arbitrary: al)
  case Nil
  then show ?case by simp
next
  case (Cons pa ports)
  let ?k = "BuildPortLabel (ContainerPort pa)"
  from Cons.prems(3) have fresh: "?k \<notin> fst ` set al" by simp
  then have upd: "AList.update ?k (Itoa (HostPort pa)) al = al @ [port_entry pa]"
    by (simp add: update_fresh port_entry_def)
  have d: "distinct (map ContainerPort ports)" using Cons.prems(1) by simp
  have r: "\<forall>q \<in> set ports. int64 (ContainerPort q)" using Cons.prems(2) by simp
  have "BuildPortLabel (ContainerPort q) \<notin> fst ` set (al @ [port_entry pa])"
    if q: "q \<in> set ports" for q
  proof -
    from Cons.prems(1) have "ContainerPort pa \<notin> ContainerPort ` set ports" by simp
    with q have "ContainerPort q \<noteq> ContainerPort pa" by (metis imageI)
    moreover from Cons.prems(2) q have "int64 (ContainerPort q)" "int64 (ContainerPort pa)"
      by simp_all
    ultimately have "BuildPortLabel (ContainerPort q) \<noteq> ?k"
      using port_label_inj by blast
    with Cons.prems(3) q show ?thesis by (auto simp: port_entry_def)
  qed
  then have f: "\<forall>q \<in> set ports. BuildPortLabel (ContainerPort q) \<notin> fst ` set (al @ [port_entry pa])"
    by blast
  from Cons.IH [OF d r f] upd show ?case by simp
qed

lemma BuildLabels_shape:
  assumes "distinct (map ContainerPort (PortAllocations env))"
      and "\<forall>pa \<in> set (PortAllocations env). int64 (ContainerPort pa)"
  shows "BuildLabels T env = base_labels T env @ map port_entry (PortAllocations env)"
proof -
  have "\<forall>pa \<in> set (PortAllocations env).
          BuildPortLabel (ContainerPort pa) \<notin> fst ` set (base_labels T env)"
    using base_no_port_prefix port_label_prefix by blast
  from fold_port_labels [OF assms this] show ?thesis
    by (simp add: BuildLabels_def base_labels_def)
qed

lemma ParsePortLabels_loop_any_order:
  "\<forall>e \<in> set ls. is_port_label e \<longrightarrow>
       Atoi (TrimPrefix (fst e) LabelOriginalPortPrefix) \<noteq> None \<and> Atoi (snd e) \<noteq> None \<Longrightarrow>
   ParsePortLabels_loop ls acc = Inr (acc @ map parsed_entry (filter is_port_label ls))"
proof (induction ls arbitrary: acc)
  case Nil
  then show ?case by simp
next
  case (Cons e ls)
  obtain k v where e: "e = (k, v)" by (cases e)
  from Cons.prems have rest: "\<forall>e \<in> set ls. is_port_label e \<longrightarrow>
       Atoi (TrimPrefix (fst e) LabelOriginalPortPrefix) \<noteq> None \<and> Atoi (snd e) \<noteq> None"
    by simp
  show ?case
  proof (cases "is_port_label e")
    case False
    with Cons.IH [OF rest] e show ?thesis by (simp add: is_port_label_def)
  next
    case True
    with Cons.prems e obtain c h where
      "Atoi (TrimPrefix k LabelOriginalPortPrefix) = Some c" "Atoi v = Some h"
      by auto
    with True Cons.IH [OF rest] e show ?thesis
      by (simp add: is_port_label_def parsed_entry_def)
  qed
qed

lemma fold_update_distinct:
  "distinct (map fst al) \<Longrightarrow>
     distinct (map fst (fold (\<lambda>pa labels. AList.update (BuildPortLabel (ContainerPort pa))
                                  (Itoa (HostPort pa)) labels) ports al))"
  by (induction ports arbitrary: al) (simp_all add: distinct_update)

lemma BuildLabels_distinct: "distinct (map fst (BuildLabels T env))"
  unfolding BuildLabels_def
  by (rule fold_update_distinct)
     (simp add: LabelPrefix_def LabelManagedBy_def LabelName_def LabelBranch_def
        LabelWorktreePath_def LabelSourceRepo_def LabelConfigPattern_def LabelCreatedAt_def)

lemma same_entries_same_lookup:
  assumes "mset ls = mset xs" and "distinct (map fst xs)"
  shows "map_of ls = map_of xs"
proof -
  from assms(1) have "mset (map fst ls) = mset (map fst xs)" by simp
  with assms(2) have "distinct (map fst ls)" by (metis mset_eq_imp_distinct_iff)
  moreover from assms(1) have "set ls = set xs" by (rule mset_eq_setD)
  ultimately show ?thesis using assms(2) by (simp add: map_of_inject_set)
qed

lemma filter_port_labels:
  "filter is_port_label (base_labels T env @ map port_entry ports) = map port_entry ports"
proof -
  have "filter is_port_label (base_labels T env) = []"
    using base_no_port_prefix [of _ T env]
    by (auto simp: filter_empty_conv is_port_label_def)
  moreover have "filter is_port_label (map port_entry ports) = map port_entry ports"
    by (simp add: filter_id_conv is_port_label_def port_entry_def port_label_prefix)
  ultimately show ?thesis by simp
qed

lemma pair_parsed_entry:
  "int64 (ContainerPort pa) \<Longrightarrow> int64 (HostPort pa) \<Longrightarrow>
     parsed_entry (port_entry pa) = parsed_port pa"
  by (simp add: parsed_entry_def port_entry_def parsed_port_def port_label_trim Atoi_Itoa)

lemma ToLower_valid: "ConfigPattern_IsValid p \<Longrightarrow> ToLower f p = p"
  by (auto simp: ConfigPattern_IsValid_def ToLower_def PatternImage_def PatternDockerfile_def
        PatternComposeSingle_def PatternComposeMulti_def)

lemma base_lookup:
  "map_of (base_labels T env @ rest) LabelManagedBy = Some ManagedByValue"
  "map_of (base_labels T env @ rest) LabelName = Some (Name env)"
  "map_of (base_labels T env @ rest) LabelBranch = Some (Branch env)"
  "map_of (base_labels T env @ rest) LabelWorktreePath = Some (WorktreePath env)"
  "map_of (base_labels T env @ rest) LabelSourceRepo = Some (SourceRepoPath env)"
  "map_of (base_labels T env @ rest) LabelConfigPattern = Some (ConfigPattern env)"
  "map_of (base_labels T env @ rest) LabelCreatedAt = Some (Format_RFC3339 T (CreatedAt env))"
  by (simp_all add: base_labels_def label_names)


text \<open>
  The round trip for environments whose port allocations have pairwise distinct container
  ports. When the configuration pattern is one of the four patterns, the library formats
  and parses the creation time back to that time truncated to the second, and the port
  numbers are Go integers, parsing the labels built from the environment, in whatever
  order the label map is iterated, succeeds and yields an environment with the same name,
  branch, worktree path, source repository path and configuration pattern, with the
  creation time truncated to the second, and with the same multiset of
  (containerPort, hostPort) pairs.
\<close>

lemma round_trip_distinct_ports:
  assumes pat: "ConfigPattern_IsValid (ConfigPattern env)"
      and tm: "Parse_RFC3339 T (Format_RFC3339 T (CreatedAt env)) =
                 Some (Truncate_Second T (CreatedAt env))"
      and dist: "distinct (map ContainerPort (PortAllocations env))"
      and rng: "\<forall>pa \<in> set (PortAllocations env). int64 (ContainerPort pa) \<and> int64 (HostPort pa)"
      and order: "mset ls = mset (BuildLabels T env)"
  shows "\<exists>env'. ParseLabels T ls = Inr env' \<and>
           Name env' = Name env \<and> Branch env' = Branch env \<and>
           WorktreePath env' = WorktreePath env \<and> SourceRepoPath env' = SourceRepoPath env \<and>
           ConfigPattern env' = ConfigPattern env \<and>
           CreatedAt env' = Truncate_Second T (CreatedAt env) \<and>
           mset (map (\<lambda>pa. (ContainerPort pa, HostPort pa)) (PortAllocations env')) =
           mset (map (\<lambda>pa. (ContainerPort pa, HostPort pa)) (PortAllocations env))"
proof -
  let ?ports = "PortAllocations env"
  let ?L = "base_labels T env @ map port_entry ?ports"
  let ?found = "map parsed_entry (filter is_port_label ls)"
  from rng have rc: "\<forall>pa \<in> set ?ports. int64 (ContainerPort pa)" by simp
  have shape: "BuildLabels T env = ?L" by (rule BuildLabels_shape [OF dist rc])
  from order have ms: "mset ls = mset ?L" by (simp only: shape)
  have "distinct (map fst ?L)" using BuildLabels_distinct [of T env] by (simp only: shape)
  with ms have lk: "map_of ls = map_of ?L" by (rule same_entries_same_lookup)
  from ms have sets: "set ls = set ?L" by (rule mset_eq_setD)
  have ok: "\<forall>e \<in> set ls. is_port_label e \<longrightarrow>
       Atoi (TrimPrefix (fst e) LabelOriginalPortPrefix) \<noteq> None \<and> Atoi (snd e) \<noteq> None"
  proof (intro ballI impI)
    fix e assume e: "e \<in> set ls" and p: "is_port_label e"
    from e sets have "e \<in> set (base_labels T env) \<or> e \<in> port_entry ` set ?ports" by auto
    then show "Atoi (TrimPrefix (fst e) LabelOriginalPortPrefix) \<noteq> None \<and> Atoi (snd e) \<noteq> None"
    proof
      assume "e \<in> set (base_labels T env)"
      then have "fst e \<in> fst ` set (base_labels T env)" by (rule imageI)
      from base_no_port_prefix [OF this] p show ?thesis by (simp add: is_port_label_def)
    next
      assume "e \<in> port_entry ` set ?ports"
      then obtain pa where "pa \<in> set ?ports" "e = port_entry pa" by blast
      with rng show ?thesis
        by (simp add: port_entry_def port_label_trim Atoi_Itoa)
    qed
  qed
  have ports: "ParsePortLabels ls = Inr ?found"
    unfolding ParsePortLabels_def
    using ParsePortLabels_loop_any_order [OF ok, of "[]"] by simp
  have cp: "ParseConfigPattern (Map_ToLower T) (ConfigPattern env) = Some (ConfigPattern env)"
    using pat by (simp add: ParseConfigPattern_def ToLower_valid)
  have parsed: "ParseLabels T ls =
          Inr \<lparr>Name = Name env, Branch = Branch env, WorktreePath = WorktreePath env,
               SourceRepoPath = SourceRepoPath env, Status = [],
               ConfigPattern = ConfigPattern env, Containers = [],
               PortAllocations = ?found,
               CreatedAt = Truncate_Second T (CreatedAt env)\<rparr>"
    unfolding ParseLabels_def Let_def lookup_str_def lk
    by (simp add: base_lookup cp tm ports del: map_of_append)
  have "mset (filter is_port_label ls) = mset (filter is_port_label ?L)"
    using ms by (simp only: mset_filter)
  then have "mset (filter is_port_label ls) = mset (map port_entry ?ports)"
    by (simp only: filter_port_labels)
  then have "mset ?found = mset (map parsed_entry (map port_entry ?ports))"
    by (simp only: mset_map)
  also have "map parsed_entry (map port_entry ?ports) = map parsed_port ?ports"
    using rng by (simp add: pair_parsed_entry)
  finally have "mset (map (\<lambda>pa. (ContainerPort pa, HostPort pa)) ?found) =
                mset (map (\<lambda>pa. (ContainerPort pa, HostPort pa)) (map parsed_port ?ports))"
    by (simp only: mset_map)
  also have "map (\<lambda>pa. (ContainerPort pa, HostPort pa)) (map parsed_port ?ports) =
        map (\<lambda>pa. (ContainerPort pa, HostPort pa)) ?ports"
    by (simp add: parsed_port_def)
  finally have pairs: "mset (map (\<lambda>pa. (ContainerPort pa, HostPort pa)) ?found) =
                mset (map (\<lambda>pa. (ContainerPort pa, HostPort pa)) ?ports)" .
  from parsed pairs show ?thesis
    by (simp del: mset_map map_map)
qed

lemmas eval_labels =
  BuildLabels_def BuildPortLabel_def Itoa_def nat_digits.simps digit_char_def label_names
  ManagedByValue_def ParseLabels_def ParsePortLabels_def HasPrefix_def TrimPrefix_def Atoi_def
  digit_val_def lookup_str_def ParseConfigPattern_def ToLower_def ConfigPattern_IsValid_def
  PatternImage_def PatternDockerfile_def PatternComposeSingle_def PatternComposeMulti_def
  Let_def char_of_eq_iff


text \<open>
  Claim C6. The label key of a port is its container port alone. For an environment with
  two allocations of the same container port (two services that both expose 3000, to which
  the batch allocator gives the host ports 13000 and 13001) \<open>BuildLabels\<close> writes one
  port label, the second assignment replacing the first. Whatever the library does,
  \<open>ParseLabels\<close> then returns an error or an environment with the single allocation
  3000 to 13001: it never returns an environment with the two pairs of the original.
\<close>

theorem labels_lose_shared_container_port:
  "ParseLabels T (BuildLabels T env_dup) =
     (case Parse_RFC3339 T (Format_RFC3339 T (CreatedAt env_dup)) of
        None \<Rightarrow> Inl (InvalidCreatedAt (Format_RFC3339 T (CreatedAt env_dup)))
      | Some createdAt \<Rightarrow>
          Inr \<lparr>Name = ''env-1'', Branch = ''feature/auth'', WorktreePath = ''/w/repo-env-1'',
               SourceRepoPath = ''/w/repo'', Status = [], ConfigPattern = ''compose-multi'',
               Containers = [],
               PortAllocations =
                 [\<lparr>ServiceName = [], ContainerPort = 3000, HostPort = 13001,
                   Protocol = ''tcp'', Label = []\<rparr>],
               CreatedAt = createdAt\<rparr>) \<and>
   \<not> (\<exists>env'. ParseLabels T (BuildLabels T env_dup) = Inr env' \<and>
          mset (map (\<lambda>pa. (ContainerPort pa, HostPort pa)) (PortAllocations env')) =
          mset (map (\<lambda>pa. (ContainerPort pa, HostPort pa)) (PortAllocations env_dup)))"
  by (auto simp add: env_dup_def eval_labels split: option.splits)

section \<open>Properties of the create command\<close>

subsection \<open>The cap on the number of environments\<close>

lemmas eval_labels2 =
  BuildPortLabel_def Itoa_def nat_digits.simps digit_char_def 
  LabelPrefix_def LabelManagedBy_def LabelName_def LabelBranch_def LabelWorktreePath_def
  LabelSourceRepo_def LabelOriginalPortPrefix_def LabelConfigPattern_def LabelCreatedAt_def
  ManagedByValue_def ParsePortLabels_def HasPrefix_def TrimPrefix_def Atoi_def
  digit_val_def lookup_str_def Let_def char_of_eq_iff

lemma nine_groups: "length (GroupContainersByEnv nine_environments) = 9"
  by (simp add: GroupContainersByEnv_def nine_environments_def managed_def eval_labels2)

lemma nine_existing:
  "loadExistingAllocations (Inr nine_environments) =
     Inr [\<lparr>ServiceName = [], ContainerPort = 3000, HostPort = 13000, Protocol = ''tcp'', Label = []\<rparr>]"
  by (simp add: loadExistingAllocations_def nine_environments_def managed_def eval_labels2)

text \<open>
  Claim C1. With nine known environments \<open>determineWorktreeIndex\<close> computes the index 10
  and returns the error "maximum of 10 environments reached" together with the index 0.
  \<open>runCreate\<close> handles every error of \<open>determineWorktreeIndex\<close> by continuing with
  index 1, so the command does not fail: it allocates the ports at index 1, next to those
  of the first environment.
\<close>

theorem create_with_nine_environments:
  "determineWorktreeIndex (Inr nine_environments) = (0, Some (MaxEnvironmentsReached 9)) \<and>
   runCreate_allocate all_free (Inr nine_environments)
     [\<lparr>PortSpec.ServiceName = ''app'', ContainerPort = 3000, HostPort = 0,
       Protocol = ''tcp'', Label = []\<rparr>]
   = Inr (1, [\<lparr>ServiceName = ''app'', ContainerPort = 3000, HostPort = 13001,
               Protocol = ''tcp'', Label = []\<rparr>])"
proof -
  have idx: "determineWorktreeIndex (Inr nine_environments) = (0, Some (MaxEnvironmentsReached 9))"
    by (simp add: determineWorktreeIndex_def nine_groups Let_def)
  show ?thesis
    unfolding runCreate_allocate_def idx nine_existing
    by (simp add: eval_alloc)
qed

subsection \<open>The Compose service count\<close>

text \<open>
  What the code computes: the service count comes from devcontainer.json alone. It is 0
  when \<open>dockerComposeFile\<close> names no file, else the length of \<open>runServices\<close> when that
  list is not empty, else 1 when \<open>service\<close> is set and 0 otherwise.
\<close>

lemma runCreate_serviceCount_cases:
  assumes "DockerComposeFile raw \<noteq> None"
  shows "runCreate_serviceCount raw =
           (if GetComposeFiles raw = [] then 0
            else if RunServices raw \<noteq> [] then int (length (RunServices raw))
            else if Service raw \<noteq> [] then 1 else 0) \<and>
         runCreate_pattern raw =
           (if runCreate_serviceCount raw \<ge> 2 then PatternComposeMulti
            else PatternComposeSingle)"
  using assms
  by (simp add: runCreate_serviceCount_def runCreate_pattern_def countComposeServices_def
        DetectPattern_def Let_def)

text \<open>
  Claim C8. \<open>runCreate\<close> never reads a Compose file. For the configuration
  \<open>{"dockerComposeFile": "docker-compose.yml", "service": "app"}\<close>, which lists no
  \<open>runServices\<close>, the count is 1 and the pattern compose-single, whatever the file
  defines. Read from a \<open>docker-compose.yml\<close> that defines the services \<open>app\<close> and \<open>db\<close>,
  the count is 2 and the pattern compose-multi.
\<close>

theorem compose_file_not_read:
  "runCreate_serviceCount compose_app_only = 1 \<and>
   spec_serviceCount app_and_db compose_app_only = 2 \<and>
   runCreate_pattern compose_app_only = PatternComposeSingle \<and>
   DetectPattern compose_app_only (spec_serviceCount app_and_db compose_app_only)
     = PatternComposeMulti \<and>
   PatternComposeSingle \<noteq> PatternComposeMulti"
  by (simp add: runCreate_serviceCount_def runCreate_pattern_def countComposeServices_def
        spec_serviceCount_def DetectPattern_def GetComposeFiles_def compose_app_only_def
        app_and_db_def PatternComposeSingle_def PatternComposeMulti_def)

text \<open>
  The same code has a second effect: \<open>countComposeServices\<close> is only called when
  \<open>GetComposeFiles\<close> returns a file. For
  \<open>{"dockerComposeFile": [], "runServices": ["app", "db"]}\<close> the count is 0 and the
  pattern compose-single, although \<open>runServices\<close> lists two services.
\<close>

lemma runServices_without_compose_file:
  "runCreate_serviceCount compose_no_file = 0 \<and>
   runCreate_pattern compose_no_file = PatternComposeSingle \<and>
   length (RunServices compose_no_file) = 2"
  by (simp add: runCreate_serviceCount_def runCreate_pattern_def countComposeServices_def
        DetectPattern_def GetComposeFiles_def compose_no_file_def)

section \<open>Properties of the start command\<close>

text \<open>
  Claim C9. \<open>runStart\<close> tests every allocated host port before it acts on Docker. When at
  least one port is not available it returns a CLI error with exit code
  \<open>ExitPortAllocationFailed\<close> whose message lists the host ports of exactly the
  unavailable allocations, in order, and the trace of Docker actions is empty. Whenever
  the trace is not empty (a compose-up or a container start was issued) the environment
  was found and every allocated port was available.
\<close>

theorem start_checks_ports_first:
  "((\<exists>pa \<in> set (PortAllocations env). \<not> IsPortAvailable h (HostPort pa) (Protocol pa)) \<longrightarrow>
      runStart h ops (Inr (env, containers)) envName =
        (Failed (NewCLIError ExitPortAllocationFailed
                   (Sprintf ''port conflict: the following ports are already in use: %v''
                      [IntsArg (map HostPort
                         (filter (\<lambda>pa. \<not> IsPortAvailable h (HostPort pa) (Protocol pa))
                            (PortAllocations env)))])),
         [])) \<and>
   (snd (runStart h ops found envName) \<noteq> [] \<longrightarrow>
      (\<exists>env containers. found = Inr (env, containers) \<and>
         (\<forall>pa \<in> set (PortAllocations env). IsPortAvailable h (HostPort pa) (Protocol pa))))"
proof (intro conjI impI)
  assume "\<exists>pa \<in> set (PortAllocations env). \<not> IsPortAvailable h (HostPort pa) (Protocol pa)"
  then have "filter (\<lambda>pa. \<not> IsPortAvailable h (HostPort pa) (Protocol pa)) (PortAllocations env) \<noteq> []"
    by (simp add: filter_empty_conv)
  then show "runStart h ops (Inr (env, containers)) envName =
        (Failed (NewCLIError ExitPortAllocationFailed
                   (Sprintf ''port conflict: the following ports are already in use: %v''
                      [IntsArg (map HostPort
                         (filter (\<lambda>pa. \<not> IsPortAvailable h (HostPort pa) (Protocol pa))
                            (PortAllocations env)))])),
         [])"
    by (simp add: runStart_def Let_def)
next
  assume tr: "snd (runStart h ops found envName) \<noteq> []"
  then obtain env containers where f: "found = Inr (env, containers)"
    by (cases found) (auto simp: runStart_def)
  have "filter (\<lambda>pa. \<not> IsPortAvailable h (HostPort pa) (Protocol pa)) (PortAllocations env) = []"
    using tr unfolding f by (auto simp: runStart_def Let_def split: if_splits)
  then have "\<forall>pa \<in> set (PortAllocations env). IsPortAvailable h (HostPort pa) (Protocol pa)"
    by (simp add: filter_empty_conv)
  with f show "\<exists>env containers. found = Inr (env, containers) \<and>
         (\<forall>pa \<in> set (PortAllocations env). IsPortAvailable h (HostPort pa) (Protocol pa))"
    by blast
qed

theorem start_checks_ports_first_witness:
  "runStart busy_13000 always_ok (Inr (env_s5, [])) ''env-1'' =
     (Failed (NewCLIError ExitPortAllocationFailed
                (Sprintf ''port conflict: the following ports are already in use: %v''
                   [IntsArg [13000]])), []) \<and>
   snd (runStart all_free always_ok (Inr (env_s5, [])) ''env-1'') =
     [ComposeUp ''/w/repo-env-1'' ''env-1''] \<and>
   IsPortAvailable all_free 13000 ''tcp'' \<and> IsPortAvailable all_free 15432 ''tcp''"
  using start_checks_ports_first [of env_s5 busy_13000 always_ok "[]" "''env-1''" "Inr (env_s5, [])"]
        start_checks_ports_first [of env_s5 all_free always_ok "[]" "''env-1''" "Inr (env_s5, [])"]
  by (simp add: env_s5_def busy_13000_def all_free_def always_ok_def runStart_def IsPortAvailable_def
        net_listen_def IsCompose_def PatternComposeMulti_def PatternComposeSingle_def Let_def)

section \<open>Properties of the rewrite of devcontainer.json\<close>

lemma applyRunArgsLabels_other:
  "k \<noteq> ''runArgs'' \<Longrightarrow> map_of (applyRunArgsLabels m labels) k = map_of m k"
  by (simp add: applyRunArgsLabels_def Let_def update_conv')

lemma applyAppPortShift_other:
  "k \<noteq> ''appPort'' \<Longrightarrow> map_of (applyAppPortShift m allocs) k = map_of m k"
  by (simp add: applyAppPortShift_def Let_def update_conv' delete_conv')

lemma applyAppPortShift_appPort:
  "map_of (applyAppPortShift m allocs) ''appPort'' =
     (if allocs = [] then None
      else Some (JArray (map (\<lambda>pa. JString (Itoa (HostPort pa) @ '':'' @ Itoa (ContainerPort pa)))
                           allocs)))"
  by (simp add: applyAppPortShift_def Let_def update_conv' delete_conv')

lemma applyPortsAttributesShift_other:
  "k \<noteq> ''portsAttributes'' \<Longrightarrow> map_of (applyPortsAttributesShift m allocs) k = map_of m k"
  by (simp add: applyPortsAttributesShift_def Let_def update_conv'
        split: option.splits json.splits)

lemma applyContainerEnv_other:
  "k \<noteq> ''containerEnv'' \<Longrightarrow> map_of (applyContainerEnv m envName idx) k = map_of m k"
  by (simp add: applyContainerEnv_def Let_def update_conv')

lemma apply_distinct:
  "distinct (map fst m) \<Longrightarrow> distinct (map fst (applyRunArgsLabels m labels))"
  "distinct (map fst m) \<Longrightarrow> distinct (map fst (applyAppPortShift m allocs))"
  "distinct (map fst m) \<Longrightarrow> distinct (map fst (applyPortsAttributesShift m allocs))"
  "distinct (map fst m) \<Longrightarrow> distinct (map fst (applyContainerEnv m envName idx))"
  by (simp_all add: applyRunArgsLabels_def applyAppPortShift_def applyPortsAttributesShift_def
        applyContainerEnv_def Let_def distinct_update distinct_delete
        split: option.splits json.splits)

text \<open>
  The rewrite of a document that is a JSON object. For every such document and every list
  of allocations the rewrite succeeds; in its result \<open>appPort\<close> is the list of the
  strings \<open>"<hostPort>:<containerPort>"\<close> in the order of the allocations, and is absent
  when the list of allocations is empty; every key other than \<open>name\<close>, \<open>runArgs\<close>,
  \<open>appPort\<close>, \<open>portsAttributes\<close> and \<open>containerEnv\<close> (such as \<open>image\<close> or
  \<open>workspaceFolder\<close>) is present exactly when it was, with the same value; and the keys
  of the result are pairwise distinct when those of the input are.
\<close>

lemma RewriteConfig_object:
  "\<exists>m'. RewriteConfig (Object m) envName worktreeIndex allocs labels = Rewritten m' \<and>
      map_of m' ''appPort'' =
        (if allocs = [] then None
         else Some (JArray (map (\<lambda>pa. JString (Itoa (HostPort pa) @ '':'' @
                                               Itoa (ContainerPort pa))) allocs))) \<and>
      (\<forall>k. k \<notin> rewriter_keys \<longrightarrow> map_of m' k = map_of m k) \<and>
      (distinct (map fst m) \<longrightarrow> distinct (map fst m'))"
proof -
  let ?m1 = "AList.update ''name'' (JString envName) m"
  let ?m2 = "applyRunArgsLabels ?m1 labels"
  let ?m3 = "applyAppPortShift ?m2 allocs"
  let ?m4 = "applyPortsAttributesShift ?m3 allocs"
  let ?m5 = "applyContainerEnv ?m4 envName worktreeIndex"
  have r: "RewriteConfig (Object m) envName worktreeIndex allocs labels = Rewritten ?m5"
    by (simp add: RewriteConfig_def Let_def)
  have a: "map_of ?m5 ''appPort'' = map_of ?m3 ''appPort''"
    by (simp add: applyContainerEnv_other applyPortsAttributesShift_other)
  have f: "map_of ?m5 k = map_of m k" if "k \<notin> rewriter_keys" for k
  proof -
    from that have k: "k \<noteq> ''name''" "k \<noteq> ''runArgs''" "k \<noteq> ''appPort''"
      "k \<noteq> ''portsAttributes''" "k \<noteq> ''containerEnv''"
      by (auto simp: rewriter_keys_def)
    have "map_of ?m5 k = map_of ?m4 k" by (rule applyContainerEnv_other [OF k(5)])
    also have "\<dots> = map_of ?m3 k" by (rule applyPortsAttributesShift_other [OF k(4)])
    also have "\<dots> = map_of ?m2 k" by (rule applyAppPortShift_other [OF k(3)])
    also have "\<dots> = map_of ?m1 k" by (rule applyRunArgsLabels_other [OF k(2)])
    also have "\<dots> = map_of m k" using k(1) by (simp add: update_conv')
    finally show ?thesis .
  qed
  have d: "distinct (map fst ?m5)" if "distinct (map fst m)"
    using that by (intro apply_distinct) (simp add: distinct_update)
  from r a f d show ?thesis
    by (simp add: applyAppPortShift_appPort)
qed

lemma digit_chars:
  "digit_char 0 = CHR ''0''" "digit_char 1 = CHR ''1''" "digit_char (Suc 0) = CHR ''1''"
  "digit_char 2 = CHR ''2''"
  "digit_char 3 = CHR ''3''" "digit_char 4 = CHR ''4''" "digit_char 5 = CHR ''5''"
  "digit_char 6 = CHR ''6''" "digit_char 7 = CHR ''7''" "digit_char 8 = CHR ''8''"
  "digit_char 9 = CHR ''9''"
  by (simp_all add: digit_char_def char_of_eq_iff)

lemmas eval_rewrite =
  RewriteConfig_def config_s1_def applyRunArgsLabels_def applyAppPortShift_def
  applyPortsAttributesShift_def applyContainerEnv_def Let_def lookup_str_def
  Itoa_def nat_digits.simps digit_chars rewriter_keys_def

text \<open>Scenario S1 of the specification, run on the model.\<close>

lemma rewrite_scenario_s1: "RewriteConfig (Object config_s1) ''env-1'' 1
     [\<lparr>ServiceName = ''app'', ContainerPort = 3000, HostPort = 13000, Protocol = ''tcp'', Label = []\<rparr>]
     [(''worktree.name'', ''env-1'')] =
   Rewritten
     [(''name'', JString ''env-1''), (''image'', JString ''node:20''),
      (''appPort'', JArray [JString ''13000:3000'']),
      (''portsAttributes'', JObject [(''13000'', JObject [(''label'', JString ''App'')])]),
      (''runArgs'', JArray [JString ''--label'', JString ''worktree.name=env-1'']),
      (''containerEnv'', JObject [(''WORKTREE_NAME'', JString ''env-1''),
                                  (''WORKTREE_INDEX'', JString ''1'')])]"
  by (simp add: eval_rewrite)

text \<open>
  Claim C7. The document \<open>null\<close> is parseable: \<open>json.Unmarshal\<close> returns no error for it
  and leaves \<open>configMap\<close> a nil map. The first step of the rewrite,
  \<open>configMap["name"] = envName\<close>, is an assignment to an entry of a nil map, which
  panics: \<open>RewriteConfig\<close> returns neither a rewritten document, in which \<open>appPort\<close>
  would be \<open>["13000:3000"]\<close>, nor an error.
\<close>

theorem rewrite_panics_on_null:
  "RewriteConfig NilMap ''env-1'' 1
     [\<lparr>ServiceName = ''app'', ContainerPort = 3000, HostPort = 13000, Protocol = ''tcp'', Label = []\<rparr>]
     [(''worktree.name'', ''env-1'')] = RewritePanic \<and>
   \<not> (\<exists>m'. RewriteConfig NilMap ''env-1'' 1
            [\<lparr>ServiceName = ''app'', ContainerPort = 3000, HostPort = 13000, Protocol = ''tcp'', Label = []\<rparr>]
            [(''worktree.name'', ''env-1'')] = Rewritten m' \<and>
          map_of m' ''appPort'' = Some (JArray [JString ''13000:3000'']))"
  by (simp add: RewriteConfig_def)

end
